theory Spec2Isabelle
  imports Complex_Main
begin

text \<open>
  A model of the Canvas MCP server: the Canvas client (\<^verbatim>\<open>canvas-client.ts\<close>: requests with
  a timeout, Link-header pagination, the five operations), the tool dispatch
  (\<^verbatim>\<open>tools.ts\<close>) and the security middleware of the HTTP entry point (\<^verbatim>\<open>index.ts\<close>).
  Functions keep their names. What JavaScript leaves to its library (parsing a date or a
  URL, turning a string into a number) is a parameter of the function that uses it; what a
  request meets upstream is an argument: the outcome of the fetch, or the script of the
  outcomes of successive fetches. A thrown error is the left summand of the result. The
  definitions come first, the properties after them.
\<close>

section \<open>JavaScript values shared by the model\<close>

text \<open>
  An optional, nullable property of a JSON object (\<^verbatim>\<open>x?: T | null\<close>): absent
  (\<^verbatim>\<open>undefined\<close>), \<^verbatim>\<open>null\<close>, or a value.
\<close>

datatype 'a js = Undefined | Null | Val 'a

text \<open>
  A JavaScript number restricted to what the identifiers and time values of this program
  are: an integer or \<^verbatim>\<open>NaN\<close>.
\<close>

datatype jsnum = NaN | Num int

text \<open>
  Errors thrown by the program. The first three are the \<^verbatim>\<open>Error\<close> objects the
  client builds with a \<^verbatim>\<open>code\<close> property; \<open>CodedError c m\<close> is
  \<^verbatim>\<open>makeError(c, m)\<close> of the tool layer; \<open>Thrown d\<close> is any other thrown value
  (a network failure, a \<^verbatim>\<open>TypeError\<close>), which carries no \<^verbatim>\<open>code\<close>.
\<close>

datatype js_error =
    TimeoutError nat
  | CanvasApiError int string
  | InvalidResponse
  | CodedError string string
  | Thrown string

fun err_code :: "js_error \<Rightarrow> string option" where
  "err_code (TimeoutError ms) = Some ''timeout''"
| "err_code (CanvasApiError st txt) = Some ''canvas_api_error''"
| "err_code InvalidResponse = Some ''invalid_response''"
| "err_code (CodedError c m) = Some c"
| "err_code (Thrown d) = None"

text \<open>Truthiness of an optional string property: absent, null and the empty string are falsy.\<close>

fun truthy_str :: "string js \<Rightarrow> bool" where
  "truthy_str (Val s) = (s \<noteq> [])"
| "truthy_str _ = False"

text \<open>\<^verbatim>\<open>x || null\<close> on an optional string.\<close>

fun str_or_null :: "string js \<Rightarrow> string option" where
  "str_or_null (Val s) = (if s = [] then None else Some s)"
| "str_or_null _ = None"

section \<open>Tool dispatch (tools.ts)\<close>

text \<open>
  The arguments of a tool call are a JSON object; \<open>arg args k\<close> is \<^verbatim>\<open>args[k]\<close>,
  \<^verbatim>\<open>undefined\<close> when the key is absent. A JSON number is a real number.
\<close>

datatype json = JUndefined | JNull | JBool bool | JNum real | JStr string | JArr "json list"
  | JObj "(string \<times> json) list"

fun truthy :: "json \<Rightarrow> bool" where
  "truthy JUndefined = False"
| "truthy JNull = False"
| "truthy (JBool b) = b"
| "truthy (JNum n) = (n \<noteq> 0)"
| "truthy (JStr s) = (s \<noteq> [])"
| "truthy (JArr xs) = True"
| "truthy (JObj kvs) = True"

definition arg :: "(string \<rightharpoonup> json) \<Rightarrow> string \<Rightarrow> json" where
  "arg args k = (case args k of None \<Rightarrow> JUndefined | Some v \<Rightarrow> v)"

text \<open>
  The Canvas client as \<open>handleToolCall\<close> sees it: five operations, each running against
  the outside world \<open>'w\<close> (the upstream requests it makes change the world) and either
  throwing or returning a result, here already serialised by
  \<^verbatim>\<open>JSON.stringify(result, null, 2)\<close>.
\<close>

record 'w client =
  listCourses_op :: "'w \<Rightarrow> (js_error + string) \<times> 'w"
  listAssignments_op :: "json \<Rightarrow> json \<Rightarrow> json \<Rightarrow> 'w \<Rightarrow> (js_error + string) \<times> 'w"
  getSubmissionStatus_op :: "json \<Rightarrow> json \<Rightarrow> 'w \<Rightarrow> (js_error + string) \<times> 'w"
  getCourseGrades_op :: "json \<Rightarrow> 'w \<Rightarrow> (js_error + string) \<times> 'w"
  listUpcoming_op :: "json \<Rightarrow> json \<Rightarrow> json \<Rightarrow> 'w \<Rightarrow> (js_error + string) \<times> 'w"

definition makeError :: "string \<Rightarrow> string \<Rightarrow> js_error" where
  "makeError c m = CodedError c m"

text \<open>
  \<open>handleToolCall toolName args canvasClient\<close>, run in world \<open>w\<close>. The result
  \<open>Inr text\<close> is \<^verbatim>\<open>{content: [{type: 'text', text}]}\<close>.
\<close>

definition handleToolCall ::
  "string \<Rightarrow> (string \<rightharpoonup> json) \<Rightarrow> 'w client \<Rightarrow> 'w \<Rightarrow> (js_error + string) \<times> 'w" where
  "handleToolCall toolName args canvasClient w =
    (if toolName = ''list_courses'' then listCourses_op canvasClient w
     else if toolName = ''list_assignments'' then
       (let courseId = arg args ''course_id'';
            includeFuture = (if arg args ''include_future'' \<noteq> JUndefined
                             then arg args ''include_future'' else JBool True);
            statusFilter = (if truthy (arg args ''status_filter'')
                            then arg args ''status_filter'' else JStr ''all'')
        in if \<not> truthy courseId
           then (Inl (makeError ''invalid_arguments'' ''course_id is required''), w)
           else listAssignments_op canvasClient courseId includeFuture statusFilter w)
     else if toolName = ''get_submission_status'' then
       (let courseId = arg args ''course_id'';
            assignmentId = arg args ''assignment_id''
        in if \<not> truthy courseId
           then (Inl (makeError ''invalid_arguments'' ''course_id is required''), w)
           else if \<not> truthy assignmentId
           then (Inl (makeError ''invalid_arguments'' ''assignment_id is required''), w)
           else getSubmissionStatus_op canvasClient courseId assignmentId w)
     else if toolName = ''get_course_grades'' then
       (let courseId = arg args ''course_id''
        in if \<not> truthy courseId
           then (Inl (makeError ''invalid_arguments'' ''course_id is required''), w)
           else getCourseGrades_op canvasClient courseId w)
     else if toolName = ''list_upcoming'' then
       (let days = (if arg args ''days'' \<noteq> JUndefined then arg args ''days'' else JNum 14);
            includeOverdue = (if arg args ''include_overdue'' \<noteq> JUndefined
                              then arg args ''include_overdue'' else JBool True);
            courseIds = arg args ''course_ids''
        in listUpcoming_op canvasClient days includeOverdue courseIds w)
     else (Inl (makeError ''invalid_tool'' (''Unknown tool: '' @ toolName)), w))"

text \<open>The three tools whose \<^verbatim>\<open>course_id\<close> is required.\<close>

definition course_tools :: "string list" where
  "course_tools = [''list_assignments'', ''get_submission_status'', ''get_course_grades'']"

text \<open>A client that records the operations run, each with its arguments, for concrete
  evaluation; and the arguments \<^verbatim>\<open>{"course_id": "0"}\<close>.\<close>

definition log_client :: "(string \<times> json list) list client" where
  "log_client = \<lparr>
      listCourses_op = (\<lambda>w. (Inr ''[]'', w @ [(''listCourses'', [])])),
      listAssignments_op = (\<lambda>a b c w. (Inr ''[]'', w @ [(''listAssignments'', [a, b, c])])),
      getSubmissionStatus_op = (\<lambda>a b w. (Inr ''{}'', w @ [(''getSubmissionStatus'', [a, b])])),
      getCourseGrades_op = (\<lambda>a w. (Inr ''{}'', w @ [(''getCourseGrades'', [a])])),
      listUpcoming_op = (\<lambda>a b c w. (Inr ''[]'', w @ [(''listUpcoming'', [a, b, c])])) \<rparr>"

definition zero_string_args :: "string \<rightharpoonup> json" where
  "zero_string_args = [''course_id'' \<mapsto> JStr ''0'']"

section \<open>Security gate (index.ts)\<close>

definition startsWith :: "string \<Rightarrow> string \<Rightarrow> bool" where
  "startsWith s p = (take (length p) s = p)"

definition endsWith :: "string \<Rightarrow> string \<Rightarrow> bool" where
  "endsWith s p = (length p \<le> length s \<and> drop (length s - length p) s = p)"

definition is_digit :: "char \<Rightarrow> bool" where
  "is_digit c = (c \<in> set ''0123456789'')"

text \<open>\<^verbatim>\<open>\d+\<close> at the start of \<open>s\<close>: the longest run of digits, which must not be empty, and
  what follows it. The pattern element after each \<^verbatim>\<open>\d+\<close> below is not a digit, so the
  longest run is the only one the matcher can settle on.\<close>

definition digits1 :: "string \<Rightarrow> (string \<times> string) option" where
  "digits1 s = (if takeWhile is_digit s = [] then None
                else Some (takeWhile is_digit s, dropWhile is_digit s))"

text \<open>A literal character at the start of \<open>s\<close>.\<close>

fun lit :: "char \<Rightarrow> string \<Rightarrow> string option" where
  "lit c [] = None"
| "lit c (x # xs) = (if x = c then Some xs else None)"

text \<open>\<^verbatim>\<open>host.match(/^(\d+\.\d+\.\d+\.\d+)/)\<close>: capture group 1, if the host starts with four
  dot-separated digit runs. Nothing anchors the end of the match.\<close>

definition ipMatch :: "string \<Rightarrow> string option" where
  "ipMatch host =
    (case digits1 host of None \<Rightarrow> None | Some (a, r1) \<Rightarrow>
     (case lit CHR ''.'' r1 of None \<Rightarrow> None | Some r1' \<Rightarrow>
     (case digits1 r1' of None \<Rightarrow> None | Some (b, r2) \<Rightarrow>
     (case lit CHR ''.'' r2 of None \<Rightarrow> None | Some r2' \<Rightarrow>
     (case digits1 r2' of None \<Rightarrow> None | Some (c, r3) \<Rightarrow>
     (case lit CHR ''.'' r3 of None \<Rightarrow> None | Some r3' \<Rightarrow>
     (case digits1 r3' of None \<Rightarrow> None | Some (d, r4) \<Rightarrow>
        Some (a @ ''.'' @ b @ ''.'' @ c @ ''.'' @ d))))))))"

text \<open>\<^verbatim>\<open>/^172\.(1[6-9]|2[0-9]|3[0-1])\./.test(ip)\<close>\<close>

definition test172 :: "string \<Rightarrow> bool" where
  "test172 ip =
    (startsWith ip ''172.'' \<and>
     (case drop 4 ip of
        x # y # z # rest \<Rightarrow>
          ((x = CHR ''1'' \<and> y \<in> set ''6789'')
           \<or> (x = CHR ''2'' \<and> y \<in> set ''0123456789'')
           \<or> (x = CHR ''3'' \<and> y \<in> set ''01'')) \<and> z = CHR ''.''
      | _ \<Rightarrow> False))"

text \<open>\<open>validateHost\<close>; \<open>port\<close> is the decimal text of the configured \<^verbatim>\<open>PORT\<close>, as
  \<^verbatim>\<open>'.local:' + PORT\<close> renders it. The host is \<open>None\<close> when the header is absent.\<close>

definition validateHost :: "string \<Rightarrow> string option \<Rightarrow> bool" where
  "validateHost port host =
    (case host of None \<Rightarrow> False | Some h \<Rightarrow>
      if h = [] then False
      else if startsWith h ''localhost:'' \<or> h = ''localhost'' \<or>
              startsWith h ''127.0.0.1:'' \<or> h = ''127.0.0.1'' \<or>
              startsWith h ''0.0.0.0:'' \<or> h = ''0.0.0.0'' then True
      else if (case ipMatch h of None \<Rightarrow> False
               | Some ip \<Rightarrow> startsWith ip ''192.168.'' \<or> startsWith ip ''10.'' \<or> test172 ip)
           then True
      else if endsWith h ''.local'' \<or> endsWith h (''.local:'' @ port) then True
      else False)"

text \<open>\<open>validateOrigin\<close>. \<open>parseUrl\<close> stands for \<^verbatim>\<open>new URL(origin)\<close>: \<open>None\<close> when it
  throws, otherwise the \<^verbatim>\<open>protocol\<close> and \<^verbatim>\<open>hostname\<close> of the parsed URL.
  \<open>allowed\<close> is \<^verbatim>\<open>ALLOWED_ORIGINS\<close>.\<close>

fun origin_allowed :: "string \<Rightarrow> string \<times> string \<Rightarrow> string list \<Rightarrow> bool" where
  "origin_allowed origin u [] = False"
| "origin_allowed origin u (allowed # rest) =
    (if CHR ''*'' \<in> set allowed then
       (let allowedHost = takeWhile (\<lambda>c. c \<noteq> CHR '':'') allowed;
            originHost = fst u @ ''//'' @ snd u
        in if originHost = remove1 CHR ''*'' allowedHost then True
           else origin_allowed origin u rest)
     else if origin = allowed then True
     else origin_allowed origin u rest)"

definition validateOrigin ::
  "(string \<Rightarrow> (string \<times> string) option) \<Rightarrow> string list \<Rightarrow> string option \<Rightarrow> bool" where
  "validateOrigin parseUrl allowed origin =
    (case origin of None \<Rightarrow> True | Some orig \<Rightarrow>
      if orig = [] then True
      else (case parseUrl orig of None \<Rightarrow> False | Some u \<Rightarrow> origin_allowed orig u allowed))"

text \<open>What a middleware does with a request: hand it on (\<^verbatim>\<open>next()\<close>) or answer with a
  status and the \<^verbatim>\<open>error\<close> text of the JSON body.\<close>

datatype http_result = Next | Reply nat string

definition securityMiddleware ::
  "(string \<Rightarrow> (string \<times> string) option) \<Rightarrow> string list \<Rightarrow> string
    \<Rightarrow> string option \<Rightarrow> string option \<Rightarrow> http_result" where
  "securityMiddleware parseUrl allowed port origin host =
    (if \<not> validateHost port host then Reply 403 ''Forbidden: Invalid Host header''
     else if (case origin of None \<Rightarrow> False | Some orig \<Rightarrow> orig \<noteq> [])
             \<and> \<not> validateOrigin parseUrl allowed origin
          then Reply 403 ''Forbidden: Invalid Origin''
     else Next)"

text \<open>Header values reach the program as strings of Latin-1 characters, one \<open>char\<close> each.
  \<open>is_space\<close> is what \<^verbatim>\<open>\s\<close> and \<^verbatim>\<open>trim()\<close> treat as white space among them: tab, line
  feed, vertical tab, form feed, carriage return, space and the no-break space.
  \<open>is_line_terminator\<close> is what \<^verbatim>\<open>.\<close> refuses.\<close>

definition is_space :: "char \<Rightarrow> bool" where
  "is_space c = (of_char c \<in> {9, 10, 11, 12, 13, 32, 160 :: nat})"

definition is_line_terminator :: "char \<Rightarrow> bool" where
  "is_line_terminator c = (of_char c \<in> {10, 13 :: nat})"

definition trim :: "string \<Rightarrow> string" where
  "trim s = rev (dropWhile is_space (rev (dropWhile is_space s)))"

text \<open>\<^verbatim>\<open>Buffer.from(s, 'utf8')\<close>: a character below 128 is one byte, any other Latin-1
  character two.\<close>

definition utf8_char :: "char \<Rightarrow> nat list" where
  "utf8_char c = (if (of_char c :: nat) < 128 then [of_char c]
                  else [192 + of_char c div 64, 128 + of_char c mod 64])"

definition utf8 :: "string \<Rightarrow> nat list" where
  "utf8 s = concat (map utf8_char s)"

text \<open>\<^verbatim>\<open>/^Bearer\s+(.+)$/i.exec(auth)\<close>, capture group 1. After the six letters (either
  case) \<^verbatim>\<open>\s+\<close> first takes the whole run of white space and gives characters back one
  at a time, down to one, until the rest is a non-empty string without line terminators.\<close>

fun bearer_backtrack :: "nat \<Rightarrow> string \<Rightarrow> string option" where
  "bearer_backtrack 0 r = None"
| "bearer_backtrack (Suc j) r =
    (if drop (Suc j) r \<noteq> [] \<and> list_all (\<lambda>c. \<not> is_line_terminator c) (drop (Suc j) r)
     then Some (drop (Suc j) r)
     else bearer_backtrack j r)"

definition bearer_match :: "string \<Rightarrow> string option" where
  "bearer_match auth =
    (if length auth \<ge> 6 \<and>
        list_all2 (\<lambda>c alts. c \<in> set alts) (take 6 auth)
          [''Bb'', ''Ee'', ''Aa'', ''Rr'', ''Ee'', ''Rr'']
     then bearer_backtrack (length (takeWhile is_space (drop 6 auth))) (drop 6 auth)
     else None)"

text \<open>\<^verbatim>\<open>crypto.timingSafeEqual\<close> on two buffers of equal length: whether they hold the same
  bytes. The middleware's result is paired with the calls of it that were made.\<close>

datatype crypto_call = TimingSafeEqual "nat list" "nat list"

definition timingSafeEqual :: "nat list \<Rightarrow> nat list \<Rightarrow> bool" where
  "timingSafeEqual a b = (a = b)"

definition unauthorized :: http_result where
  "unauthorized = Reply 401 ''unauthorized''"

text \<open>\<open>mcpAuthMiddleware\<close>; \<open>token\<close> is \<^verbatim>\<open>MCP_AUTH_TOKEN\<close> (empty when not configured; its
  characters are taken from Latin-1 as well), \<open>raw\<close> the \<^verbatim>\<open>authorization\<close> header.\<close>

definition mcpAuthMiddleware :: "string \<Rightarrow> string option \<Rightarrow> http_result \<times> crypto_call list" where
  "mcpAuthMiddleware token raw =
    (if token = [] then (Next, [])
     else (case raw of None \<Rightarrow> (unauthorized, []) | Some r \<Rightarrow>
       if r = [] then (unauthorized, [])
       else (case bearer_match (trim r) of None \<Rightarrow> (unauthorized, [])
         | Some m \<Rightarrow>
            (let providedToken = trim m;
                 provided = utf8 providedToken;
                 expected = utf8 token
             in if length provided \<noteq> length expected then (unauthorized, [])
                else if \<not> timingSafeEqual provided expected
                     then (unauthorized, [TimingSafeEqual provided expected])
                     else (Next, [TimingSafeEqual provided expected])))))"

text \<open>The route: \<^verbatim>\<open>app.use(BASE_PATH, securityMiddleware, mcpAuthMiddleware)\<close> in front of
  the handler of \<^verbatim>\<open>app.post(BASE_PATH, ...)\<close>, which is where tools are dispatched. The
  handler runs against the world \<open>'w\<close> and is reached only through both \<^verbatim>\<open>next()\<close>.\<close>

record request =
  host_header :: "string option"
  origin_header :: "string option"
  authorization_header :: "string option"

definition mcp_route ::
  "(string \<Rightarrow> (string \<times> string) option) \<Rightarrow> string list \<Rightarrow> string \<Rightarrow> string
    \<Rightarrow> (request \<Rightarrow> 'w \<Rightarrow> http_result \<times> 'w) \<Rightarrow> request \<Rightarrow> 'w \<Rightarrow> http_result \<times> 'w" where
  "mcp_route parseUrl allowed port token handler req w =
    (case securityMiddleware parseUrl allowed port (origin_header req) (host_header req) of
       Reply st msg \<Rightarrow> (Reply st msg, w)
     | Next \<Rightarrow>
        (case fst (mcpAuthMiddleware token (authorization_header req)) of
           Reply st msg \<Rightarrow> (Reply st msg, w)
         | Next \<Rightarrow> handler req w))"


section \<open>Canvas client: requests and pagination (canvas-client.ts)\<close>

text \<open>What \<^verbatim>\<open>response.json()\<close> gives: it throws (\<open>Unparseable\<close>); or yields an array of
  items; or yields a string, given here by the items its characters become when it is
  spread into \<^verbatim>\<open>push\<close> (a string has no \<^verbatim>\<open>filter\<close>: calling it throws a
  \<^verbatim>\<open>TypeError\<close>); or yields some other JSON value (an object, a number, a boolean,
  null), on which both spreading and calling \<^verbatim>\<open>filter\<close> throw a \<^verbatim>\<open>TypeError\<close>.\<close>

datatype 'a body = Unparseable | JsonArray "'a list" | JsonString "'a list" | JsonOther

record 'a response =
  status :: int
  statusText :: string
  link :: "string option"
  body :: "'a body"

text \<open>\<^verbatim>\<open>response.ok\<close>: the status is in the range 200 to 299.\<close>

definition ok :: "('a, 'b) response_scheme \<Rightarrow> bool" where
  "ok r = (200 \<le> status r \<and> status r \<le> 299)"

text \<open>How one call of \<^verbatim>\<open>fetch\<close> ends: the abort signal fired, it failed otherwise, or a
  response arrived.\<close>

datatype 'a fetch_outcome = Aborted | Failed string | Responded "'a response"

definition fetchWithTimeout :: "nat \<Rightarrow> 'a fetch_outcome \<Rightarrow> js_error + 'a response" where
  "fetchWithTimeout timeoutMs outcome =
    (case outcome of
       Aborted \<Rightarrow> Inl (TimeoutError timeoutMs)
     | Failed d \<Rightarrow> Inl (Thrown d)
     | Responded res \<Rightarrow> Inr res)"

text \<open>\<^verbatim>\<open>s.split(c)\<close> for a one-character separator.\<close>

fun split_on :: "char \<Rightarrow> string \<Rightarrow> string list" where
  "split_on c [] = [[]]"
| "split_on c (x # xs) =
    (if x = c then [] # split_on c xs
     else (case split_on c xs of [] \<Rightarrow> [[x]] | p # ps \<Rightarrow> (x # p) # ps))"

text \<open>The pattern \<^verbatim>\<open><([^>]+)>;\s*rel="([^"]+)"\<close> tried at the start of \<open>s\<close>; the result is
  the pair of capture groups. Each repetition is followed by a character it cannot itself
  take, so its longest run is the only candidate.\<close>

definition match_link_at :: "string \<Rightarrow> (string \<times> string) option" where
  "match_link_at s =
    (case s of [] \<Rightarrow> None | x # r \<Rightarrow>
      if x \<noteq> CHR ''<'' then None
      else (let url = takeWhile (\<lambda>c. c \<noteq> CHR ''>'') r;
                r1 = dropWhile (\<lambda>c. c \<noteq> CHR ''>'') r
            in if url = [] then None
               else if \<not> startsWith r1 ''>;'' then None
               else (let r2 = dropWhile is_space (drop 2 r1)
                     in if \<not> startsWith r2 (''rel='' @ [CHR 0x22]) then None
                        else (let rel = takeWhile (\<lambda>c. c \<noteq> CHR 0x22) (drop 5 r2);
                                  r3 = dropWhile (\<lambda>c. c \<noteq> CHR 0x22) (drop 5 r2)
                              in if rel = [] \<or> r3 = [] then None
                                 else Some (url, rel)))))"

text \<open>\<^verbatim>\<open>part.match(...)\<close>: the leftmost position at which the pattern matches.\<close>

fun match_link :: "string \<Rightarrow> (string \<times> string) option" where
  "match_link [] = None"
| "match_link (x # xs) =
    (case match_link_at (x # xs) of Some m \<Rightarrow> Some m | None \<Rightarrow> match_link xs)"

text \<open>The loop of \<open>parseLinkHeader\<close> over the parts; \<open>nxt\<close> is \<^verbatim>\<open>links.next\<close> so far.\<close>

fun scan_parts :: "string list \<Rightarrow> string option \<Rightarrow> string option" where
  "scan_parts [] nxt = nxt"
| "scan_parts (part # parts) nxt =
    (case match_link part of
       None \<Rightarrow> scan_parts parts nxt
     | Some (url, rel) \<Rightarrow>
         if rel = ''next'' then scan_parts parts (Some url) else scan_parts parts nxt)"

definition parseLinkHeader :: "string option \<Rightarrow> string option" where
  "parseLinkHeader linkHeader =
    (case linkHeader of None \<Rightarrow> None | Some h \<Rightarrow>
      if h = [] then None else scan_parts (split_on CHR '','' h) None)"

text \<open>
  The \<^verbatim>\<open>while (nextUrl)\<close> loop of \<open>getWithPagination\<close>. The upstream server is a script:
  the outcomes of the successive calls of \<^verbatim>\<open>fetch\<close>, one consumed by each request. The
  result is paired with the URLs requested, in order. When the loop wants another request
  and the script has none left, the result is \<open>None\<close>: the script says nothing about how
  the call ends.
\<close>

fun pagination_loop ::
  "nat \<Rightarrow> string option \<Rightarrow> 'a list \<Rightarrow> 'a fetch_outcome list
    \<Rightarrow> (js_error + 'a list) option \<times> string list" where
  "pagination_loop timeoutMs None results script = (Some (Inr results), [])"
| "pagination_loop timeoutMs (Some nextUrl) results [] =
    (if nextUrl = [] then (Some (Inr results), []) else (None, []))"
| "pagination_loop timeoutMs (Some nextUrl) results (outcome # script) =
    (if nextUrl = [] then (Some (Inr results), [])
     else (case fetchWithTimeout timeoutMs outcome of
        Inl e \<Rightarrow> (Some (Inl e), [nextUrl])
      | Inr res \<Rightarrow>
          if \<not> ok res
          then (Some (Inl (CanvasApiError (status res) (statusText res))), [nextUrl])
          else (case body res of
             Unparseable \<Rightarrow> (Some (Inl InvalidResponse), [nextUrl])
           | JsonOther \<Rightarrow> (Some (Inl (Thrown ''TypeError'')), [nextUrl])
           | JsonArray data \<Rightarrow>
               (let rest = pagination_loop timeoutMs (parseLinkHeader (link res))
                             (results @ data) script
                in (fst rest, nextUrl # snd rest))
           | JsonString data \<Rightarrow>
               (let rest = pagination_loop timeoutMs (parseLinkHeader (link res))
                             (results @ data) script
                in (fst rest, nextUrl # snd rest)))))"

text \<open>\<open>getWithPagination\<close>; \<open>url\<close> is the text of the URL the function builds from the base
  URL, the endpoint, the caller's parameters and \<^verbatim>\<open>per_page=100\<close>.\<close>

definition getWithPagination ::
  "nat \<Rightarrow> string \<Rightarrow> 'a fetch_outcome list \<Rightarrow> (js_error + 'a list) option \<times> string list" where
  "getWithPagination timeoutMs url script = pagination_loop timeoutMs (Some url) [] script"

text \<open>A Link header written from its segments, each a URL and a relation, as
  \<^verbatim>\<open><URL>; rel="REL"\<close>, joined by a comma and the white space \<open>pad\<close> (none, as Canvas
  writes its headers, or a space).\<close>

definition link_segment :: "string \<times> string \<Rightarrow> string" where
  "link_segment seg = ''<'' @ fst seg @ ''>; rel='' @ [CHR 0x22] @ snd seg @ [CHR 0x22]"

fun render_link :: "string \<Rightarrow> (string \<times> string) list \<Rightarrow> string" where
  "render_link pad [] = []"
| "render_link pad [seg] = link_segment seg"
| "render_link pad (seg # segs) = link_segment seg @ '','' @ pad @ render_link pad segs"

text \<open>A segment the comma-separated format can carry: a non-empty URL without \<^verbatim>\<open>>\<close>
  or comma, a non-empty relation without double quote or comma.\<close>

definition wf_segment :: "string \<times> string \<Rightarrow> bool" where
  "wf_segment seg =
    (fst seg \<noteq> [] \<and> CHR ''>'' \<notin> set (fst seg) \<and> CHR '','' \<notin> set (fst seg)
     \<and> snd seg \<noteq> [] \<and> CHR 0x22 \<notin> set (snd seg) \<and> CHR '','' \<notin> set (snd seg))"

text \<open>One page of an upstream listing: its status, its items, and its Link header, given
  by the white space after each comma and the segments (\<open>None\<close> when the response has no
  such header).\<close>

record 'a page =
  p_status :: int
  p_items :: "'a list"
  p_pad :: string
  p_links :: "(string \<times> string) list option"

definition page_response :: "'a page \<Rightarrow> 'a response" where
  "page_response p = \<lparr> status = p_status p, statusText = ''OK'',
      link = map_option (render_link (p_pad p)) (p_links p), body = JsonArray (p_items p) \<rparr>"

definition wf_page :: "'a page \<Rightarrow> bool" where
  "wf_page p = (200 \<le> p_status p \<and> p_status p \<le> 299 \<and> list_all is_space (p_pad p)
      \<and> (case p_links p of None \<Rightarrow> True | Some segs \<Rightarrow> list_all wf_segment segs))"

text \<open>The URL of the segment whose relation is \<^verbatim>\<open>next\<close> (the last one, should there be
  several).\<close>

definition next_of :: "'a page \<Rightarrow> string option" where
  "next_of p = (case p_links p of None \<Rightarrow> None
      | Some segs \<Rightarrow> map_option fst (find (\<lambda>seg. snd seg = ''next'') (rev segs)))"

text \<open>Two pages of numbers for concrete evaluation, and two failing responses.\<close>

definition example_pages :: "nat page list" where
  "example_pages =
    [\<lparr>p_status = 200, p_items = [1, 2], p_pad = [],
      p_links = Some [(''https://c/api/v1/courses?page=2'', ''next''),
                      (''https://c/api/v1/courses?page=9'', ''last'')]\<rparr>,
     \<lparr>p_status = 200, p_items = [3], p_pad = '' '',
      p_links = Some [(''https://c/api/v1/courses?page=1'', ''prev''),
                      (''https://c/api/v1/courses?page=1'', ''first'')]\<rparr>]"

definition server_error :: "nat response" where
  "server_error = \<lparr>status = 500, statusText = ''Internal Server Error'', link = None,
                    body = JsonArray []\<rparr>"

definition garbled :: "nat response" where
  "garbled = \<lparr>status = 200, statusText = ''OK'', link = None, body = Unparseable\<rparr>"

section \<open>Canvas client: assignments (canvas-client.ts)\<close>

text \<open>A \<^verbatim>\<open>Date\<close> object is its time value in milliseconds, \<open>None\<close> when the date is
  invalid (time value \<^verbatim>\<open>NaN\<close>). Comparing dates compares time values, and every
  comparison with an invalid date is false. The parser of date strings,
  \<^verbatim>\<open>new Date(s)\<close>, is a parameter \<open>parseDate\<close> of the functions below.\<close>

type_synonym date = "int option"

fun date_lt :: "date \<Rightarrow> date \<Rightarrow> bool" where
  "date_lt (Some a) (Some b) = (a < b)"
| "date_lt _ _ = False"

fun date_le :: "date \<Rightarrow> date \<Rightarrow> bool" where
  "date_le (Some a) (Some b) = (a \<le> b)"
| "date_le _ _ = False"

text \<open>\<^verbatim>\<open>new Date(s)\<close> for an optional string that has already been found truthy.\<close>

fun new_Date :: "(string \<Rightarrow> date) \<Rightarrow> string js \<Rightarrow> date" where
  "new_Date parseDate (Val s) = parseDate s"
| "new_Date parseDate _ = None"


record raw_submission =
  workflow_state :: string
  submitted_at :: "string js"
  missing :: "bool js"
  late :: "bool js"

record raw_assignment =
  a_id :: int
  a_name :: string
  due_at :: "string js"
  unlock_at :: "string js"
  lock_at :: "string js"
  points_possible :: "real js"
  submission_types :: "string list js"
  submission :: "raw_submission option"

record submission_status =
  ss_workflow_state :: string
  ss_submitted_at :: "string js"
  ss_missing :: bool
  ss_late :: bool

record assignment =
  n_id :: int
  n_name :: string
  n_due_at :: "string js"
  n_unlock_at :: "string js"
  n_lock_at :: "string js"
  n_points_possible :: real
  n_submission_types :: "string list"
  n_submission_status :: "submission_status option"

text \<open>\<^verbatim>\<open>x || false\<close>, \<^verbatim>\<open>x || 0\<close> and \<^verbatim>\<open>x || []\<close>.\<close>

fun or_false :: "bool js \<Rightarrow> bool" where
  "or_false (Val b) = b"
| "or_false _ = False"

fun or_zero :: "real js \<Rightarrow> real" where
  "or_zero (Val x) = x"
| "or_zero _ = 0"

fun or_empty :: "'a list js \<Rightarrow> 'a list" where
  "or_empty (Val xs) = xs"
| "or_empty _ = []"

text \<open>The object built for each assignment by the final \<^verbatim>\<open>map\<close> of \<open>listAssignments\<close>.\<close>

definition normalize_assignment :: "raw_assignment \<Rightarrow> assignment" where
  "normalize_assignment a =
    \<lparr> n_id = a_id a, n_name = a_name a, n_due_at = due_at a, n_unlock_at = unlock_at a,
      n_lock_at = lock_at a, n_points_possible = or_zero (points_possible a),
      n_submission_types = or_empty (submission_types a),
      n_submission_status =
        (case submission a of None \<Rightarrow> None
         | Some s \<Rightarrow> Some \<lparr> ss_workflow_state = workflow_state s,
                            ss_submitted_at = submitted_at s,
                            ss_missing = or_false (missing s),
                            ss_late = or_false (late s) \<rparr>) \<rparr>"

text \<open>The callback of the first \<^verbatim>\<open>filter\<close> (on \<^verbatim>\<open>unlock_at\<close>).\<close>

definition future_keep :: "(string \<Rightarrow> date) \<Rightarrow> int \<Rightarrow> raw_assignment \<Rightarrow> bool" where
  "future_keep parseDate now a =
    (if \<not> truthy_str (unlock_at a) then True
     else date_le (new_Date parseDate (unlock_at a)) (Some now))"

text \<open>\<^verbatim>\<open>submission?.submitted_at\<close>, \<^verbatim>\<open>submission?.missing\<close> and
  \<^verbatim>\<open>submission?.workflow_state\<close>.\<close>

definition opt_submitted_at :: "raw_submission option \<Rightarrow> string js" where
  "opt_submitted_at sub = (case sub of None \<Rightarrow> Undefined | Some s \<Rightarrow> submitted_at s)"

definition opt_missing :: "raw_submission option \<Rightarrow> bool js" where
  "opt_missing sub = (case sub of None \<Rightarrow> Undefined | Some s \<Rightarrow> missing s)"

definition opt_workflow_state :: "raw_submission option \<Rightarrow> string js" where
  "opt_workflow_state sub = (case sub of None \<Rightarrow> Undefined | Some s \<Rightarrow> Val (workflow_state s))"

text \<open>The callback of the second \<^verbatim>\<open>filter\<close>: the \<^verbatim>\<open>switch\<close> on \<open>statusFilter\<close>.\<close>

definition status_keep :: "(string \<Rightarrow> date) \<Rightarrow> int \<Rightarrow> string \<Rightarrow> raw_assignment \<Rightarrow> bool" where
  "status_keep parseDate now statusFilter a =
    (let sub = submission a;
         hasSubmittedAt = (opt_submitted_at sub \<noteq> Null \<and> opt_submitted_at sub \<noteq> Undefined);
         isDueDatePassed = (if truthy_str (due_at a)
                            then date_lt (new_Date parseDate (due_at a)) (Some now)
                            else False)
     in if statusFilter = ''missing'' then
          (if opt_missing sub = Val True then True
           else isDueDatePassed \<and> \<not> hasSubmittedAt)
        else if statusFilter = ''unsubmitted'' then
          (sub = None \<or> \<not> hasSubmittedAt)
        else if statusFilter = ''submitted'' then
          (if hasSubmittedAt then True
           else if opt_workflow_state sub = Val ''submitted''
                   \<or> opt_workflow_state sub = Val ''graded'' then True
           else False)
        else True)"

text \<open>
  \<open>listAssignments\<close>. \<open>fetched\<close> is how the paginated request for the course's
  assignments ended; \<open>now1\<close> and \<open>now2\<close> are the two readings of the clock, one in each
  filter; \<open>future_filter\<close> is the first filter with its guard.
\<close>

definition future_filter ::
  "(string \<Rightarrow> date) \<Rightarrow> int \<Rightarrow> bool \<Rightarrow> raw_assignment list \<Rightarrow> raw_assignment list" where
  "future_filter parseDate now includeFuture assignments =
    (if \<not> includeFuture then filter (future_keep parseDate now) assignments else assignments)"

definition listAssignments ::
  "(string \<Rightarrow> date) \<Rightarrow> int \<Rightarrow> int \<Rightarrow> bool \<Rightarrow> string
     \<Rightarrow> js_error + raw_assignment list \<Rightarrow> js_error + assignment list" where
  "listAssignments parseDate now1 now2 includeFuture statusFilter fetched =
    (case fetched of Inl e \<Rightarrow> Inl e | Inr assignments \<Rightarrow>
      (let filtered = future_filter parseDate now1 includeFuture assignments;
           filtered2 = (if statusFilter \<noteq> ''all''
                        then filter (status_keep parseDate now2 statusFilter) filtered
                        else filtered)
       in Inr (map normalize_assignment filtered2)))"

text \<open>The membership rules in the words of the specification.\<close>

definition missing_flag :: "raw_assignment \<Rightarrow> bool" where
  "missing_flag a = (case submission a of None \<Rightarrow> False | Some s \<Rightarrow> missing s = Val True)"

definition has_submitted_at :: "raw_assignment \<Rightarrow> bool" where
  "has_submitted_at a =
    (case submission a of None \<Rightarrow> False
     | Some s \<Rightarrow> (case submitted_at s of Val t \<Rightarrow> True | _ \<Rightarrow> False))"

definition due_passed :: "(string \<Rightarrow> date) \<Rightarrow> int \<Rightarrow> raw_assignment \<Rightarrow> bool" where
  "due_passed parseDate now a =
    (case due_at a of
       Val d \<Rightarrow> d \<noteq> [] \<and> (case parseDate d of None \<Rightarrow> False | Some t \<Rightarrow> t < now)
     | _ \<Rightarrow> False)"

definition spec_missing :: "(string \<Rightarrow> date) \<Rightarrow> int \<Rightarrow> raw_assignment \<Rightarrow> bool" where
  "spec_missing parseDate now a =
    (missing_flag a \<or> (due_passed parseDate now a \<and> \<not> has_submitted_at a))"

definition spec_unsubmitted :: "raw_assignment \<Rightarrow> bool" where
  "spec_unsubmitted a = (submission a = None \<or> \<not> has_submitted_at a)"

definition spec_submitted :: "raw_assignment \<Rightarrow> bool" where
  "spec_submitted a =
    (has_submitted_at a
     \<or> (case submission a of None \<Rightarrow> False
         | Some s \<Rightarrow> workflow_state s = ''submitted'' \<or> workflow_state s = ''graded''))"

text \<open>An assignment that was due on 1 January 2024 and has no submission object, and a date
  parser that knows that one date, for concrete evaluation.\<close>

definition overdue_essay :: raw_assignment where
  "overdue_essay = \<lparr> a_id = 7, a_name = ''Essay'', due_at = Val ''2024-01-01T00:00:00Z'',
      unlock_at = Undefined, lock_at = Null, points_possible = Val 10,
      submission_types = Val [''online_upload''], submission = None \<rparr>"

definition example_parseDate :: "string \<Rightarrow> date" where
  "example_parseDate s = (if s = ''2024-01-01T00:00:00Z'' then Some 1704067200000 else None)"

section \<open>Canvas client: grades (canvas-client.ts)\<close>

record raw_grades =
  current_score :: "real js"
  current_grade :: "string js"
  final_score :: "real js"
  final_grade :: "string js"

record raw_course_dates =
  start_at :: "string js"
  end_at :: "string js"

record raw_enrollment =
  e_id :: int
  e_course_id :: int
  enrollment_state :: string
  grades :: "raw_grades option"
  computed_current_score :: "real js"
  computed_current_grade :: "string js"
  computed_final_score :: "real js"
  computed_final_grade :: "string js"
  enrollment_term_id :: "int js"
  course :: "raw_course_dates option"

text \<open>The course id argument is a number or a string; \<^verbatim>\<open>Number(courseId)\<close> is the number
  itself, or what the parameter \<open>toNumber\<close> makes of the string.\<close>

datatype course_ref = CourseNum int | CourseStr string

fun Number_of :: "(string \<Rightarrow> jsnum) \<Rightarrow> course_ref \<Rightarrow> jsnum" where
  "Number_of toNumber (CourseNum n) = Num n"
| "Number_of toNumber (CourseStr s) = toNumber s"

text \<open>The two shapes of the result. Both carry \<^verbatim>\<open>course_id\<close>; \<open>Unavailable\<close> carries the
  reason and, for \<^verbatim>\<open>no_grades_yet\<close>, the enrollment metadata; \<open>Available\<close> carries the
  current score and grade, the final score and grade, and the metadata (its
  \<^verbatim>\<open>last_updated\<close> is always null).\<close>

record enrollment_meta =
  m_enrollment_state :: string
  m_term_id :: "int option"
  m_course_start_at :: "string option"
  m_course_end_at :: "string option"

datatype grade_summary =
    Unavailable jsnum string "enrollment_meta option"
  | Available jsnum "real option" "string option" "real option" "string option" enrollment_meta

text \<open>\<^verbatim>\<open>a ?? b ?? null\<close>, and \<^verbatim>\<open>n || null\<close> on an optional number.\<close>

fun nullish :: "'a js \<Rightarrow> 'a option" where
  "nullish (Val x) = Some x"
| "nullish _ = None"

definition coalesce :: "'a js \<Rightarrow> 'a js \<Rightarrow> 'a option" where
  "coalesce a b = (case nullish a of Some x \<Rightarrow> Some x | None \<Rightarrow> nullish b)"

fun int_or_null :: "int js \<Rightarrow> int option" where
  "int_or_null (Val n) = (if n = 0 then None else Some n)"
| "int_or_null _ = None"

text \<open>\<^verbatim>\<open>course?.start_at\<close>, \<^verbatim>\<open>course?.end_at\<close> and \<^verbatim>\<open>grades?.f\<close>.\<close>

definition opt_start_at :: "raw_course_dates option \<Rightarrow> string js" where
  "opt_start_at c = (case c of None \<Rightarrow> Undefined | Some d \<Rightarrow> start_at d)"

definition opt_end_at :: "raw_course_dates option \<Rightarrow> string js" where
  "opt_end_at c = (case c of None \<Rightarrow> Undefined | Some d \<Rightarrow> end_at d)"

definition opt_grade :: "(raw_grades \<Rightarrow> 'a js) \<Rightarrow> raw_grades option \<Rightarrow> 'a js" where
  "opt_grade f g = (case g of None \<Rightarrow> Undefined | Some x \<Rightarrow> f x)"

text \<open>Numbers as the comparator of a sort returns them.\<close>

fun getTime :: "date \<Rightarrow> jsnum" where
  "getTime None = NaN"
| "getTime (Some t) = Num t"

fun num_sub :: "jsnum \<Rightarrow> jsnum \<Rightarrow> jsnum" where
  "num_sub (Num a) (Num b) = Num (a - b)"
| "num_sub _ _ = NaN"

text \<open>
  \<^verbatim>\<open>Array.prototype.sort\<close> with a comparator: a stable sort, in which \<open>x\<close> moves behind
  \<open>y\<close> exactly when \<^verbatim>\<open>cmp(x, y) > 0\<close> (a \<^verbatim>\<open>NaN\<close> result counts as 0). For a comparator
  that is a consistent ordering this is the order the language prescribes. Where the
  comparator is not one (it can return \<^verbatim>\<open>NaN\<close> for a date that does not parse), the
  language leaves the order to the engine, and the order defined here is one of those it
  allows, not necessarily the one a given engine produces; the properties below rest on
  this definition only for lists on which the comparator is consistent.
\<close>

fun sorts_after :: "jsnum \<Rightarrow> bool" where
  "sorts_after NaN = False"
| "sorts_after (Num v) = (v > 0)"

fun sort_insert :: "('a \<Rightarrow> 'a \<Rightarrow> jsnum) \<Rightarrow> 'a \<Rightarrow> 'a list \<Rightarrow> 'a list" where
  "sort_insert cmp x [] = [x]"
| "sort_insert cmp x (y # ys) =
    (if sorts_after (cmp x y) then y # sort_insert cmp x ys else x # y # ys)"

definition js_sort :: "('a \<Rightarrow> 'a \<Rightarrow> jsnum) \<Rightarrow> 'a list \<Rightarrow> 'a list" where
  "js_sort cmp xs = foldr (sort_insert cmp) xs []"

text \<open>The comparator passed to \<^verbatim>\<open>candidateEnrollments.sort\<close>.\<close>

definition enrollment_cmp :: "(string \<Rightarrow> date) \<Rightarrow> raw_enrollment \<Rightarrow> raw_enrollment \<Rightarrow> jsnum" where
  "enrollment_cmp parseDate a b =
    (let aEndAt = opt_end_at (course a); bEndAt = opt_end_at (course b)
     in if truthy_str aEndAt \<and> truthy_str bEndAt
        then num_sub (getTime (new_Date parseDate bEndAt)) (getTime (new_Date parseDate aEndAt))
        else if truthy_str aEndAt \<and> \<not> truthy_str bEndAt then Num 1
        else if \<not> truthy_str aEndAt \<and> truthy_str bEndAt then Num (- 1)
        else Num (e_id b - e_id a))"

text \<open>The selection of the enrollment: the active ones if there are any, otherwise all,
  sorted, and the first taken (\<open>None\<close> for \<^verbatim>\<open>undefined\<close>, when the list is empty).\<close>

definition best_enrollment :: "(string \<Rightarrow> date) \<Rightarrow> raw_enrollment list \<Rightarrow> raw_enrollment option" where
  "best_enrollment parseDate courseEnrollments =
    (let activeEnrollments = filter (\<lambda>e. enrollment_state e = ''active'') courseEnrollments;
         candidateEnrollments = (if length activeEnrollments > 0 then activeEnrollments
                                 else courseEnrollments)
     in (case js_sort (enrollment_cmp parseDate) candidateEnrollments of
           [] \<Rightarrow> None | e # rest \<Rightarrow> Some e))"

definition hasGradeData :: "raw_enrollment \<Rightarrow> bool" where
  "hasGradeData enrollment =
    ((case grades enrollment of None \<Rightarrow> False
      | Some g \<Rightarrow> current_score g \<noteq> Null \<or> current_grade g \<noteq> Null
                  \<or> final_score g \<noteq> Null \<or> final_grade g \<noteq> Null)
     \<or> computed_current_score enrollment \<noteq> Null
     \<or> computed_current_grade enrollment \<noteq> Null)"

definition meta_of :: "raw_enrollment \<Rightarrow> enrollment_meta" where
  "meta_of enrollment =
    \<lparr> m_enrollment_state = enrollment_state enrollment,
      m_term_id = int_or_null (enrollment_term_id enrollment),
      m_course_start_at = str_or_null (opt_start_at (course enrollment)),
      m_course_end_at = str_or_null (opt_end_at (course enrollment)) \<rparr>"

text \<open>What \<open>getCourseGrades\<close> returns for the selected enrollment.\<close>

definition grade_result :: "jsnum \<Rightarrow> raw_enrollment \<Rightarrow> grade_summary" where
  "grade_result cid enrollment =
    (if \<not> hasGradeData enrollment
     then Unavailable cid ''no_grades_yet'' (Some (meta_of enrollment))
     else Available cid
            (coalesce (opt_grade current_score (grades enrollment))
                      (computed_current_score enrollment))
            (coalesce (opt_grade current_grade (grades enrollment))
                      (computed_current_grade enrollment))
            (coalesce (opt_grade final_score (grades enrollment))
                      (computed_final_score enrollment))
            (coalesce (opt_grade final_grade (grades enrollment))
                      (computed_final_grade enrollment))
            (meta_of enrollment))"

definition hidden :: "jsnum \<Rightarrow> grade_summary" where
  "hidden cid = Unavailable cid ''hidden_or_unavailable'' None"

text \<open>The \<^verbatim>\<open>try\<close> block of \<open>getCourseGrades\<close>: \<open>outcome\<close> is how the one request ends.\<close>

definition getCourseGrades_try ::
  "nat \<Rightarrow> (string \<Rightarrow> jsnum) \<Rightarrow> (string \<Rightarrow> date) \<Rightarrow> course_ref
     \<Rightarrow> raw_enrollment fetch_outcome \<Rightarrow> js_error + grade_summary" where
  "getCourseGrades_try timeoutMs toNumber parseDate courseId outcome =
    (case fetchWithTimeout timeoutMs outcome of
       Inl e \<Rightarrow> Inl e
     | Inr res \<Rightarrow>
        if \<not> ok res then Inr (hidden (Number_of toNumber courseId))
        else (case body res of
           Unparseable \<Rightarrow> Inl (Thrown ''SyntaxError'')
         | JsonOther \<Rightarrow> Inl (Thrown ''TypeError'')
         | JsonString cs \<Rightarrow> Inl (Thrown ''TypeError'')
         | JsonArray enrollments \<Rightarrow>
            (let courseEnrollments =
                   filter (\<lambda>e. Num (e_course_id e) = Number_of toNumber courseId) enrollments
             in if length courseEnrollments = 0
                then Inr (hidden (Number_of toNumber courseId))
                else (case best_enrollment parseDate courseEnrollments of
                        None \<Rightarrow> Inl (Thrown ''TypeError'')
                      | Some enrollment \<Rightarrow>
                          Inr (grade_result (Number_of toNumber courseId) enrollment)))))"

text \<open>\<open>getCourseGrades\<close>: the \<^verbatim>\<open>try\<close> block and its \<^verbatim>\<open>catch\<close>. The result type keeps a
  place for an error that would escape.\<close>

definition getCourseGrades ::
  "nat \<Rightarrow> (string \<Rightarrow> jsnum) \<Rightarrow> (string \<Rightarrow> date) \<Rightarrow> course_ref
     \<Rightarrow> raw_enrollment fetch_outcome \<Rightarrow> js_error + grade_summary" where
  "getCourseGrades timeoutMs toNumber parseDate courseId outcome =
    (case getCourseGrades_try timeoutMs toNumber parseDate courseId outcome of
       Inr summary \<Rightarrow> Inr summary
     | Inl error \<Rightarrow>
         if err_code error = Some ''timeout''
         then Inr (hidden (Number_of toNumber courseId))
         else Inr (hidden (Number_of toNumber courseId)))"

text \<open>Enrollments for concrete evaluation: one whose \<^verbatim>\<open>grades\<close> object holds four nulls
  and which has no \<^verbatim>\<open>computed_*\<close> property (the shape the enrollments endpoint gives a
  course without grades), and two active ones in the same course, hence with the same
  course end date.\<close>

definition ungraded_enrollment :: raw_enrollment where
  "ungraded_enrollment = \<lparr> e_id = 1, e_course_id = 42, enrollment_state = ''active'',
      grades = Some \<lparr> current_score = Null, current_grade = Null,
                      final_score = Null, final_grade = Null \<rparr>,
      computed_current_score = Undefined, computed_current_grade = Undefined,
      computed_final_score = Undefined, computed_final_grade = Undefined,
      enrollment_term_id = Undefined, course = None \<rparr>"

definition section_enrollment :: "int \<Rightarrow> real \<Rightarrow> raw_enrollment" where
  "section_enrollment i score = \<lparr> e_id = i, e_course_id = 42, enrollment_state = ''active'',
      grades = Some \<lparr> current_score = Val score, current_grade = Null,
                      final_score = Null, final_grade = Null \<rparr>,
      computed_current_score = Undefined, computed_current_grade = Undefined,
      computed_final_score = Undefined, computed_final_grade = Undefined,
      enrollment_term_id = Undefined,
      course = Some \<lparr> start_at = Null, end_at = Val ''2025-06-30T00:00:00Z'' \<rparr> \<rparr>"

definition enrollments_response :: "raw_enrollment list \<Rightarrow> raw_enrollment response" where
  "enrollments_response es = \<lparr> status = 200, statusText = ''OK'', link = None,
                                body = JsonArray es \<rparr>"

section \<open>Canvas client: courses and upcoming assignments (canvas-client.ts)\<close>
























section \<open>Properties\<close>

subsection \<open>Tool dispatch\<close>


lemma falsy_ids: "v \<in> {JUndefined, JNum 0, JStr ''''} \<Longrightarrow> \<not> truthy v"
  by auto

lemma list_assignments_requires_course:
  "\<not> truthy (arg args ''course_id'') \<Longrightarrow> handleToolCall ''list_assignments'' args c w
     = (Inl (CodedError ''invalid_arguments'' ''course_id is required''), w)"
  by (simp add: handleToolCall_def makeError_def Let_def)

lemma get_submission_status_requires_course:
  "\<not> truthy (arg args ''course_id'') \<Longrightarrow> handleToolCall ''get_submission_status'' args c w
     = (Inl (CodedError ''invalid_arguments'' ''course_id is required''), w)"
  by (simp add: handleToolCall_def makeError_def Let_def)

lemma get_submission_status_requires_assignment:
  "truthy (arg args ''course_id'') \<Longrightarrow> \<not> truthy (arg args ''assignment_id'')
    \<Longrightarrow> handleToolCall ''get_submission_status'' args c w
     = (Inl (CodedError ''invalid_arguments'' ''assignment_id is required''), w)"
  by (simp add: handleToolCall_def makeError_def Let_def)

lemma get_course_grades_requires_course:
  "\<not> truthy (arg args ''course_id'') \<Longrightarrow> handleToolCall ''get_course_grades'' args c w
     = (Inl (CodedError ''invalid_arguments'' ''course_id is required''), w)"
  by (simp add: handleToolCall_def makeError_def Let_def)

lemma course_tools_cases:
  "tool \<in> set course_tools \<Longrightarrow>
     tool = ''list_assignments'' \<or> tool = ''get_submission_status'' \<or> tool = ''get_course_grades''"
  unfolding course_tools_def by (simp only: set_simps insert_iff empty_iff) blast

lemma list_assignments_dispatched:
  "truthy (arg args ''course_id'') \<Longrightarrow> handleToolCall ''list_assignments'' args c w
     = listAssignments_op c (arg args ''course_id'')
         (if arg args ''include_future'' \<noteq> JUndefined then arg args ''include_future''
          else JBool True)
         (if truthy (arg args ''status_filter'') then arg args ''status_filter''
          else JStr ''all'') w"
  by (simp add: handleToolCall_def Let_def)

lemma get_submission_status_dispatched:
  "truthy (arg args ''course_id'') \<Longrightarrow> truthy (arg args ''assignment_id'')
    \<Longrightarrow> handleToolCall ''get_submission_status'' args c w
     = getSubmissionStatus_op c (arg args ''course_id'') (arg args ''assignment_id'') w"
  by (simp add: handleToolCall_def Let_def)

lemma get_course_grades_dispatched:
  "truthy (arg args ''course_id'') \<Longrightarrow> handleToolCall ''get_course_grades'' args c w
     = getCourseGrades_op c (arg args ''course_id'') w"
  by (simp add: handleToolCall_def Let_def)

text \<open>
  C10, amended. The required ids are checked by truthiness: for \<^verbatim>\<open>list_assignments\<close>,
  \<^verbatim>\<open>get_submission_status\<close> and \<^verbatim>\<open>get_course_grades\<close>, a \<^verbatim>\<open>course_id\<close> that is
  absent, the number 0 or the empty string throws \<^verbatim>\<open>invalid_arguments\<close> with message
  \<^verbatim>\<open>course_id is required\<close>; for \<^verbatim>\<open>get_submission_status\<close> with a usable course id,
  an \<^verbatim>\<open>assignment_id\<close> that is absent, 0 or empty throws \<^verbatim>\<open>assignment_id is required\<close>.
  In every one of these cases the world is returned unchanged whatever the client is:
  no client operation, hence no upstream request, is run. Every truthy id, on the other
  hand, is handed to the client operation as it is; so the number 0 is never queried,
  while an id that is a non-empty string is, whatever the string.
\<close>

theorem handleToolCall_falsy_id_rejected:
  "(tool \<in> set course_tools \<and> arg args ''course_id'' \<in> {JUndefined, JNum 0, JStr ''''}
      \<longrightarrow> handleToolCall tool args c w
          = (Inl (CodedError ''invalid_arguments'' ''course_id is required''), w))
   \<and> (truthy (arg args ''course_id'')
        \<and> arg args ''assignment_id'' \<in> {JUndefined, JNum 0, JStr ''''}
      \<longrightarrow> handleToolCall ''get_submission_status'' args c w
          = (Inl (CodedError ''invalid_arguments'' ''assignment_id is required''), w))
   \<and> (truthy (arg args ''course_id'')
      \<longrightarrow> handleToolCall ''list_assignments'' args c w
          = listAssignments_op c (arg args ''course_id'')
              (if arg args ''include_future'' \<noteq> JUndefined then arg args ''include_future''
               else JBool True)
              (if truthy (arg args ''status_filter'') then arg args ''status_filter''
               else JStr ''all'') w)
   \<and> (truthy (arg args ''course_id'') \<and> truthy (arg args ''assignment_id'')
      \<longrightarrow> handleToolCall ''get_submission_status'' args c w
          = getSubmissionStatus_op c (arg args ''course_id'') (arg args ''assignment_id'') w)
   \<and> (truthy (arg args ''course_id'')
      \<longrightarrow> handleToolCall ''get_course_grades'' args c w
          = getCourseGrades_op c (arg args ''course_id'') w)"
proof (intro conjI impI)
  assume a: "tool \<in> set course_tools \<and> arg args ''course_id'' \<in> {JUndefined, JNum 0, JStr ''''}"
  then have f: "\<not> truthy (arg args ''course_id'')" by (rule falsy_ids [OF conjunct2])
  from course_tools_cases [OF conjunct1 [OF a]]
  consider "tool = ''list_assignments''" | "tool = ''get_submission_status''"
    | "tool = ''get_course_grades''" by fast
  then show "handleToolCall tool args c w
          = (Inl (CodedError ''invalid_arguments'' ''course_id is required''), w)"
  proof cases
    case 1 then show ?thesis by (simp only: list_assignments_requires_course [OF f])
  next
    case 2 then show ?thesis by (simp only: get_submission_status_requires_course [OF f])
  next
    case 3 then show ?thesis by (simp only: get_course_grades_requires_course [OF f])
  qed
next
  assume a: "truthy (arg args ''course_id'')
        \<and> arg args ''assignment_id'' \<in> {JUndefined, JNum 0, JStr ''''}"
  then have g: "\<not> truthy (arg args ''assignment_id'')" by (rule falsy_ids [OF conjunct2])
  show "handleToolCall ''get_submission_status'' args c w
          = (Inl (CodedError ''invalid_arguments'' ''assignment_id is required''), w)"
    by (rule get_submission_status_requires_assignment [OF conjunct1 [OF a] g])
next
  assume a: "truthy (arg args ''course_id'')"
  show "handleToolCall ''list_assignments'' args c w
          = listAssignments_op c (arg args ''course_id'')
              (if arg args ''include_future'' \<noteq> JUndefined then arg args ''include_future''
               else JBool True)
              (if truthy (arg args ''status_filter'') then arg args ''status_filter''
               else JStr ''all'') w"
    by (rule list_assignments_dispatched [OF a])
next
  assume a: "truthy (arg args ''course_id'') \<and> truthy (arg args ''assignment_id'')"
  show "handleToolCall ''get_submission_status'' args c w
          = getSubmissionStatus_op c (arg args ''course_id'') (arg args ''assignment_id'') w"
    by (rule get_submission_status_dispatched [OF conjunct1 [OF a] conjunct2 [OF a]])
next
  assume a: "truthy (arg args ''course_id'')"
  show "handleToolCall ''get_course_grades'' args c w
          = getCourseGrades_op c (arg args ''course_id'') w"
    by (rule get_course_grades_dispatched [OF a])
qed

lemma log_client_ops:
  "getCourseGrades_op log_client a w = (Inr ''{}'', w @ [(''getCourseGrades'', [a])])"
  "getSubmissionStatus_op log_client a b w = (Inr ''{}'', w @ [(''getSubmissionStatus'', [a, b])])"
  by (simp_all add: log_client_def)

theorem handleToolCall_falsy_id_rejected_witness:
  "handleToolCall ''get_course_grades'' [''course_id'' \<mapsto> JNum 0] log_client []
     = (Inl (CodedError ''invalid_arguments'' ''course_id is required''), [])
   \<and> handleToolCall ''get_submission_status''
        [''course_id'' \<mapsto> JNum 7, ''assignment_id'' \<mapsto> JStr ''''] log_client []
     = (Inl (CodedError ''invalid_arguments'' ''assignment_id is required''), [])
   \<and> handleToolCall ''get_course_grades'' [''course_id'' \<mapsto> JNum 7] log_client []
     = (Inr ''{}'', [(''getCourseGrades'', [JNum 7])])
   \<and> handleToolCall ''get_submission_status''
        [''course_id'' \<mapsto> JNum 7, ''assignment_id'' \<mapsto> JStr ''12''] log_client []
     = (Inr ''{}'', [(''getSubmissionStatus'', [JNum 7, JStr ''12''])])"
proof -
  have m1: "''get_course_grades'' \<in> set course_tools \<and>
            arg [''course_id'' \<mapsto> JNum 0] ''course_id'' \<in> {JUndefined, JNum 0, JStr ''''}"
    by (simp add: course_tools_def arg_def)
  have a2: "truthy (arg [''course_id'' \<mapsto> JNum 7, ''assignment_id'' \<mapsto> JStr ''''] ''course_id'')
     \<and> arg [''course_id'' \<mapsto> JNum 7, ''assignment_id'' \<mapsto> JStr ''''] ''assignment_id''
      \<in> {JUndefined, JNum 0, JStr ''''}"
    by (simp add: arg_def)
  have a3: "arg [''course_id'' \<mapsto> JNum 7] ''course_id'' = JNum 7"
    by (simp add: arg_def)
  have t3: "truthy (arg [''course_id'' \<mapsto> JNum 7] ''course_id'')"
    by (simp add: a3)
  have a4: "arg [''course_id'' \<mapsto> JNum 7, ''assignment_id'' \<mapsto> JStr ''12''] ''course_id'' = JNum 7"
    "arg [''course_id'' \<mapsto> JNum 7, ''assignment_id'' \<mapsto> JStr ''12''] ''assignment_id'' = JStr ''12''"
    by (simp_all add: arg_def)
  have t4: "truthy (arg [''course_id'' \<mapsto> JNum 7, ''assignment_id'' \<mapsto> JStr ''12''] ''course_id'')
    \<and> truthy (arg [''course_id'' \<mapsto> JNum 7, ''assignment_id'' \<mapsto> JStr ''12''] ''assignment_id'')"
    by (simp add: a4)
  note t = handleToolCall_falsy_id_rejected
  have r1: "handleToolCall ''get_course_grades'' [''course_id'' \<mapsto> JNum 0] log_client []
     = (Inl (CodedError ''invalid_arguments'' ''course_id is required''), [])"
    by (rule mp [OF conjunct1 [OF t] m1])
  have r2: "handleToolCall ''get_submission_status''
        [''course_id'' \<mapsto> JNum 7, ''assignment_id'' \<mapsto> JStr ''''] log_client []
     = (Inl (CodedError ''invalid_arguments'' ''assignment_id is required''), [])"
    by (rule mp [OF conjunct1 [OF conjunct2 [OF t]] a2])
  have r3: "handleToolCall ''get_course_grades'' [''course_id'' \<mapsto> JNum 7] log_client []
     = (Inr ''{}'', [(''getCourseGrades'', [JNum 7])])"
    by (rule mp [OF conjunct2 [OF conjunct2 [OF conjunct2 [OF conjunct2
          [OF t [where args = "[''course_id'' \<mapsto> JNum 7]" and c = log_client and w = "[]"]]]]]
          t3, unfolded a3 log_client_ops append_Nil])
  have r4: "handleToolCall ''get_submission_status''
        [''course_id'' \<mapsto> JNum 7, ''assignment_id'' \<mapsto> JStr ''12''] log_client []
     = (Inr ''{}'', [(''getSubmissionStatus'', [JNum 7, JStr ''12''])])"
    by (rule mp [OF conjunct1 [OF conjunct2 [OF conjunct2 [OF conjunct2
          [OF t [where args = "[''course_id'' \<mapsto> JNum 7, ''assignment_id'' \<mapsto> JStr ''12'']"
                   and c = log_client and w = "[]"]]]]]
          t4, unfolded a4 log_client_ops append_Nil])
  show ?thesis by (intro conjI r1 r2 r3 r4)
qed

text \<open>
  C10 as stated fails in its last clause: an id of 0 can be queried. The string \<^verbatim>\<open>"0"\<close>,
  which the tool's schema allows for \<^verbatim>\<open>course_id\<close>, is truthy; the call is not rejected
  and the client's \<^verbatim>\<open>getCourseGrades\<close> is run with it.
\<close>

theorem handleToolCall_zero_string_counterexample:
  "handleToolCall ''get_course_grades'' zero_string_args log_client []
     = (Inr ''{}'', [(''getCourseGrades'', [JStr ''0''])])"
  by (simp add: handleToolCall_def zero_string_args_def arg_def Let_def log_client_def)

subsection \<open>Bearer token check\<close>















subsection \<open>Host check\<close>

lemma validateHost_examples:
  "validateHost ''8080'' (Some ''evil.com'') = False"
  "validateHost ''8080'' (Some ''localhost:3000'') = True"
  "validateHost ''8080'' (Some ''172.32.0.1'') = False"
  "validateHost ''8080'' (Some ''172.31.0.1:8080'') = True"
  "validateHost ''8080'' (Some ''raspberrypi.local:8080'') = True"
  "validateHost ''8080'' (Some ''raspberrypi.local:9090'') = False"
  "validateHost ''8080'' None = False"
  by (simp_all add: validateHost_def startsWith_def endsWith_def ipMatch_def digits1_def
        is_digit_def test172_def)

lemma mcp_route_invalid_host:
  "\<not> validateHost port (host_header req) \<Longrightarrow>
     mcp_route parseUrl allowed port token handler req w
       = (Reply 403 ''Forbidden: Invalid Host header'', w)"
  by (simp add: mcp_route_def securityMiddleware_def)

lemma mcp_route_evil_com:
  "mcp_route parseUrl allowed ''8080'' token handler
      \<lparr>host_header = Some ''evil.com'', origin_header = orig, authorization_header = au\<rparr> w
     = (Reply 403 ''Forbidden: Invalid Host header'', w)"
  by (rule mcp_route_invalid_host) (simp add: validateHost_examples)

lemma ipMatch_rebinding_name: "ipMatch ''10.0.0.1.evil.com'' = Some ''10.0.0.1''"
  by (simp add: ipMatch_def digits1_def is_digit_def)

text \<open>
  C8 (the code at the failing input). The Host value \<^verbatim>\<open>10.0.0.1.evil.com\<close> is a public DNS
  name, not an address of 10.0.0.0/8, yet \<open>validateHost\<close> accepts it, whatever the port and
  the allowed origins: the address pattern is anchored at the start of the header only, and
  the prefix \<^verbatim>\<open>10.0.0.1\<close> it captures starts with \<^verbatim>\<open>10.\<close>. The request passes the security
  middleware and, with no token configured, reaches the handler.
\<close>

theorem validateHost_accepts_address_prefixed_name:
  "validateHost port (Some ''10.0.0.1.evil.com'')
   \<and> securityMiddleware parseUrl allowed port None (Some ''10.0.0.1.evil.com'') = Next
   \<and> mcp_route parseUrl allowed port [] handler
        \<lparr>host_header = Some ''10.0.0.1.evil.com'', origin_header = None,
         authorization_header = None\<rparr> w
      = handler \<lparr>host_header = Some ''10.0.0.1.evil.com'', origin_header = None,
         authorization_header = None\<rparr> w"
proof -
  have v: "validateHost port (Some ''10.0.0.1.evil.com'')"
    by (simp add: validateHost_def ipMatch_rebinding_name startsWith_def)
  have s: "securityMiddleware parseUrl allowed port None (Some ''10.0.0.1.evil.com'') = Next"
    by (simp add: securityMiddleware_def v)
  have r: "mcp_route parseUrl allowed port [] handler
        \<lparr>host_header = Some ''10.0.0.1.evil.com'', origin_header = None,
         authorization_header = None\<rparr> w
      = handler \<lparr>host_header = Some ''10.0.0.1.evil.com'', origin_header = None,
         authorization_header = None\<rparr> w"
    by (simp add: mcp_route_def s mcpAuthMiddleware_def)
  show ?thesis by (intro conjI v s r)
qed

subsection \<open>Link header parsing\<close>

lemma split_on_no_sep: "c \<notin> set a \<Longrightarrow> split_on c a = [a]"
  by (induction a) auto

lemma split_on_append: "c \<notin> set a \<Longrightarrow> split_on c (a @ c # b) = a # split_on c b"
  by (induction a) auto

lemma takeWhile_upto: "c \<notin> set a \<Longrightarrow> takeWhile (\<lambda>x. x \<noteq> c) (a @ c # b) = a"
  by (induction a) auto

lemma dropWhile_upto: "c \<notin> set a \<Longrightarrow> dropWhile (\<lambda>x. x \<noteq> c) (a @ c # b) = c # b"
  by (induction a) auto

lemma match_link_at_segment:
  assumes "wf_segment (u, r)"
  shows "match_link_at (link_segment (u, r) @ t) = Some (u, r)"
proof -
  from assms have u: "u \<noteq> []" "CHR ''>'' \<notin> set u" and r: "r \<noteq> []" "CHR 0x22 \<notin> set r"
    by (simp_all add: wf_segment_def)
  have shape: "link_segment (u, r) @ t
      = CHR ''<'' # (u @ CHR ''>'' # (''; rel='' @ [CHR 0x22] @ r @ CHR 0x22 # t))"
    by (simp add: link_segment_def)
  show ?thesis
    unfolding shape match_link_at_def
    by (simp add: takeWhile_upto [OF u(2)] dropWhile_upto [OF u(2)]
          takeWhile_upto [OF r(2)] dropWhile_upto [OF r(2)] u r startsWith_def is_space_def
          Let_def)
qed

lemma is_space_not_special: "is_space c \<Longrightarrow> c \<noteq> CHR '','' \<and> c \<noteq> CHR ''<''"
  by (auto simp add: is_space_def)

lemma match_link_pad: "list_all is_space pad \<Longrightarrow> match_link (pad @ s) = match_link s"
proof (induction pad)
  case Nil
  then show ?case by simp
next
  case (Cons c pad)
  then have "c \<noteq> CHR ''<''" using is_space_not_special by simp
  then have "match_link_at (c # pad @ s) = None" by (simp add: match_link_at_def)
  with Cons show ?case by simp
qed

lemma match_link_segment:
  assumes "wf_segment seg"
  shows "match_link (link_segment seg) = Some seg"
    and "list_all is_space pad \<Longrightarrow> match_link (pad @ link_segment seg) = Some seg"
proof -
  obtain u r where seg: "seg = (u, r)" by (cases seg)
  from match_link_at_segment [of u r "[]"] assms seg
  have m: "match_link_at (link_segment seg) = Some seg" by simp
  obtain cs where c: "link_segment seg = CHR ''<'' # cs"
    by (simp add: link_segment_def)
  from m show 1: "match_link (link_segment seg) = Some seg"
    unfolding c by simp
  assume "list_all is_space pad"
  from match_link_pad [OF this] 1 show "match_link (pad @ link_segment seg) = Some seg"
    by simp
qed

lemma find_append:
  "find P (xs @ ys) = (case find P xs of None \<Rightarrow> find P ys | Some x \<Rightarrow> Some x)"
  by (induction xs) auto

lemma find_Some_mem: "find P xs = Some x \<Longrightarrow> x \<in> set xs \<and> P x"
  by (induction xs) (auto split: if_splits)

lemma link_segment_no_comma: "wf_segment seg \<Longrightarrow> CHR '','' \<notin> set (link_segment seg)"
  by (simp add: wf_segment_def link_segment_def)

lemma link_segment_not_empty: "link_segment seg \<noteq> []"
  by (simp add: link_segment_def)

lemma split_on_prefix:
  "c \<notin> set a \<Longrightarrow> split_on c xs = p # ps \<Longrightarrow> split_on c (a @ xs) = (a @ p) # ps"
  by (induction a) auto

lemma pad_no_comma: "list_all is_space pad \<Longrightarrow> CHR '','' \<notin> set pad"
  using is_space_not_special by (auto simp add: list_all_iff)

lemma split_on_render_link:
  "list_all is_space pad \<Longrightarrow> list_all wf_segment (seg # segs) \<Longrightarrow>
     split_on CHR '','' (render_link pad (seg # segs))
       = link_segment seg # map (\<lambda>x. pad @ link_segment x) segs"
proof (induction segs arbitrary: seg)
  case Nil
  then show ?case by (simp add: split_on_no_sep link_segment_no_comma)
next
  case (Cons s2 segs)
  from Cons.prems have w: "wf_segment seg" and rest: "list_all wf_segment (s2 # segs)" by simp_all
  have "render_link pad (seg # s2 # segs)
      = link_segment seg @ CHR '','' # (pad @ render_link pad (s2 # segs))" by simp
  then have "split_on CHR '','' (render_link pad (seg # s2 # segs))
      = link_segment seg # split_on CHR '','' (pad @ render_link pad (s2 # segs))"
    by (simp only: split_on_append [OF link_segment_no_comma [OF w]])
  also have "split_on CHR '','' (pad @ render_link pad (s2 # segs))
      = (pad @ link_segment s2) # map (\<lambda>x. pad @ link_segment x) segs"
    by (rule split_on_prefix [OF pad_no_comma [OF Cons.prems(1)] Cons.IH [OF Cons.prems(1) rest]])
  finally show ?case by simp
qed

lemma scan_parts_segments:
  "list_all is_space pad \<Longrightarrow> list_all wf_segment segs \<Longrightarrow>
     scan_parts (map (\<lambda>x. pad @ link_segment x) segs) nxt
       = (case find (\<lambda>seg. snd seg = ''next'') (rev segs) of
            None \<Rightarrow> nxt | Some seg \<Rightarrow> Some (fst seg))"
proof (induction segs arbitrary: nxt)
  case Nil
  then show ?case by simp
next
  case (Cons seg segs)
  then have w: "wf_segment seg" and rest: "list_all wf_segment segs" by simp_all
  obtain u r where seg: "seg = (u, r)" by (cases seg)
  show ?case
    using Cons.IH [OF Cons.prems(1) rest] match_link_segment(2) [OF w Cons.prems(1)] seg
    by (simp add: find_append split: option.splits)
qed

lemma find_rev_Cons:
  "find P (rev (x # xs)) = (case find P (rev xs) of None \<Rightarrow> (if P x then Some x else None) | Some y \<Rightarrow> Some y)"
  by (simp add: find_append split: option.splits)

lemma parseLinkHeader_render_link:
  assumes "list_all is_space pad" "list_all wf_segment segs"
  shows "parseLinkHeader (Some (render_link pad segs))
           = map_option fst (find (\<lambda>seg. snd seg = ''next'') (rev segs))"
proof (cases segs)
  case Nil
  then show ?thesis by (simp add: parseLinkHeader_def)
next
  case (Cons seg rest)
  with assms have w: "wf_segment seg" and wr: "list_all wf_segment rest" by simp_all
  obtain u r where seg: "seg = (u, r)" by (cases seg)
  have ne: "render_link pad (seg # rest) \<noteq> []"
    by (cases rest) (simp_all add: link_segment_not_empty)
  have "parseLinkHeader (Some (render_link pad (seg # rest)))
      = scan_parts (link_segment seg # map (\<lambda>x. pad @ link_segment x) rest) None"
    using ne split_on_render_link [OF assms(1), of seg rest] w wr
    by (simp add: parseLinkHeader_def)
  also have "\<dots> = scan_parts (map (\<lambda>x. pad @ link_segment x) rest)
                     (if r = ''next'' then Some u else None)"
    using match_link_segment(1) [OF w] seg by simp
  also have "\<dots> = map_option fst (find (\<lambda>seg. snd seg = ''next'') (rev (seg # rest)))"
    unfolding scan_parts_segments [OF assms(1) wr] find_rev_Cons using seg
    by (simp split: option.splits)
  finally show ?thesis using Cons by simp
qed

lemma parseLinkHeader_page:
  "wf_page p \<Longrightarrow> parseLinkHeader (link (page_response p)) = next_of p"
proof (cases "p_links p")
  case None
  then show ?thesis by (simp add: page_response_def next_of_def parseLinkHeader_def)
next
  case (Some segs)
  assume "wf_page p"
  with Some have "list_all is_space (p_pad p)" "list_all wf_segment segs"
    by (simp_all add: wf_page_def)
  from parseLinkHeader_render_link [OF this] Some show ?thesis
    by (simp add: page_response_def next_of_def)
qed

lemma next_of_not_empty:
  assumes "wf_page p" "next_of p = Some u"
  shows "u \<noteq> []"
proof -
  from assms(2) obtain segs seg where s: "p_links p = Some segs"
      and f: "find (\<lambda>seg. snd seg = ''next'') (rev segs) = Some seg" and u: "u = fst seg"
    by (auto simp add: next_of_def split: option.splits)
  from find_Some_mem [OF f] have "seg \<in> set segs" by simp
  with assms(1) s have "wf_segment seg" by (simp add: wf_page_def list_all_iff)
  with u show ?thesis by (simp add: wf_segment_def)
qed

subsection \<open>The pagination loop\<close>

lemma ok_page_response: "wf_page p \<Longrightarrow> ok (page_response p)"
  by (simp add: wf_page_def ok_def page_response_def)

lemma body_page_response: "body (page_response p) = JsonArray (p_items p)"
  by (simp add: page_response_def)

lemma pagination_loop_good_page:
  assumes "wf_page p" "url \<noteq> []"
  shows "pagination_loop t (Some url) acc (Responded (page_response p) # script)
     = (fst (pagination_loop t (next_of p) (acc @ p_items p) script),
        url # snd (pagination_loop t (next_of p) (acc @ p_items p) script))"
  using assms
  by (simp add: fetchWithTimeout_def ok_page_response body_page_response parseLinkHeader_page
        Let_def)

lemma pagination_loop_pages:
  assumes "pages \<noteq> []" "list_all wf_page pages"
    and "list_all (\<lambda>p. next_of p \<noteq> None) (butlast pages)"
    and "next_of (last pages) = None" "url \<noteq> []"
  shows "pagination_loop t (Some url) acc (map (\<lambda>p. Responded (page_response p)) pages @ extra)
     = (Some (Inr (acc @ concat (map p_items pages))),
        url # map (\<lambda>p. the (next_of p)) (butlast pages))"
  using assms
proof (induction pages arbitrary: url acc)
  case Nil
  then show ?case by simp
next
  case (Cons p ps)
  from Cons.prems have w: "wf_page p" by simp
  note step = pagination_loop_good_page [OF w Cons.prems(5)]
  show ?case
  proof (cases "ps = []")
    case True
    with Cons.prems have "next_of p = None" by simp
    with True step show ?thesis by simp
  next
    case False
    with Cons.prems obtain u where u: "next_of p = Some u" by auto
    from next_of_not_empty [OF w u] have ne: "u \<noteq> []" .
    from False Cons.prems have rest: "list_all wf_page ps"
      "list_all (\<lambda>p. next_of p \<noteq> None) (butlast ps)" "next_of (last ps) = None"
      by simp_all
    from Cons.IH [OF False rest ne, of "acc @ p_items p"] step u False
    show ?thesis by simp
  qed
qed

lemma pagination_loop_bad_status:
  assumes "list_all wf_page pages" "list_all (\<lambda>p. next_of p \<noteq> None) pages"
    and "url \<noteq> []" "\<not> ok bad"
  shows "fst (pagination_loop t (Some url) acc
               (map (\<lambda>p. Responded (page_response p)) pages @ Responded bad # extra))
     = Some (Inl (CanvasApiError (status bad) (statusText bad)))"
  using assms
proof (induction pages arbitrary: url acc)
  case Nil
  then show ?case by (simp add: fetchWithTimeout_def)
next
  case (Cons p ps)
  from Cons.prems have w: "wf_page p" by simp
  from Cons.prems obtain u where u: "next_of p = Some u" by auto
  from next_of_not_empty [OF w u] have ne: "u \<noteq> []" .
  from Cons.prems have rest: "list_all wf_page ps" "list_all (\<lambda>p. next_of p \<noteq> None) ps"
    by simp_all
  from Cons.IH [OF rest ne Cons.prems(4), of "acc @ p_items p"]
    pagination_loop_good_page [OF w Cons.prems(3)] u
  show ?case by simp
qed

lemma pagination_loop_bad_body:
  assumes "list_all wf_page pages" "list_all (\<lambda>p. next_of p \<noteq> None) pages"
    and "url \<noteq> []" "ok bad" "body bad = Unparseable"
  shows "fst (pagination_loop t (Some url) acc
               (map (\<lambda>p. Responded (page_response p)) pages @ Responded bad # extra))
     = Some (Inl InvalidResponse)"
  using assms
proof (induction pages arbitrary: url acc)
  case Nil
  then show ?case by (simp add: fetchWithTimeout_def)
next
  case (Cons p ps)
  from Cons.prems have w: "wf_page p" by simp
  from Cons.prems obtain u where u: "next_of p = Some u" by auto
  from next_of_not_empty [OF w u] have ne: "u \<noteq> []" .
  from Cons.prems have rest: "list_all wf_page ps" "list_all (\<lambda>p. next_of p \<noteq> None) ps"
    by simp_all
  from Cons.IH [OF rest ne Cons.prems(4,5), of "acc @ p_items p"]
    pagination_loop_good_page [OF w Cons.prems(3)] u
  show ?case by simp
qed

text \<open>
  C5. Let the upstream answer with N pages, each a 2xx response whose body is an array and
  whose Link header, when present, is a comma-separated list of \<^verbatim>\<open><URL>; rel="REL"\<close>
  segments (with or without white space after the commas); let every page but the last carry a segment with relation \<^verbatim>\<open>next\<close> and the
  last carry none (no header, or only other relations such as first, last, prev). Then the
  paginated fetch returns the items of all N pages, page after page in upstream order, and
  issues exactly N requests: the initial URL, then for each page but the last the URL of
  its \<^verbatim>\<open>next\<close> segment and no other. Whatever the script holds after page N is not
  requested.
\<close>

theorem getWithPagination_all_pages:
  assumes "pages \<noteq> []" and "list_all wf_page pages"
    and "list_all (\<lambda>p. next_of p \<noteq> None) (butlast pages)"
    and "next_of (last pages) = None" and "url \<noteq> []"
  shows "getWithPagination t url (map (\<lambda>p. Responded (page_response p)) pages @ extra)
           = (Some (Inr (concat (map p_items pages))),
              url # map (\<lambda>p. the (next_of p)) (butlast pages))
       \<and> length (snd (getWithPagination t url
                        (map (\<lambda>p. Responded (page_response p)) pages @ extra)))
           = length pages"
proof -
  from pagination_loop_pages [OF assms, of t "[]" extra]
  have r: "getWithPagination t url (map (\<lambda>p. Responded (page_response p)) pages @ extra)
           = (Some (Inr (concat (map p_items pages))),
              url # map (\<lambda>p. the (next_of p)) (butlast pages))"
    by (simp add: getWithPagination_def)
  from assms(1) have "length (url # map (\<lambda>p. the (next_of p)) (butlast pages)) = length pages"
    by simp
  with r show ?thesis by simp
qed

text \<open>
  C6. Let any number of good pages, each announcing a next page, be followed by a page
  that fails. If the failing response is not 2xx, the operation ends with the
  \<^verbatim>\<open>canvas_api_error\<close> error made from that response's status and status text; if it is 2xx
  and its body does not parse, the operation ends with the \<^verbatim>\<open>invalid_response\<close> error.
  In both cases the result is the error alone: none of the items of the earlier pages is
  returned.
\<close>

theorem getWithPagination_aborts:
  assumes "list_all wf_page pages" and "list_all (\<lambda>p. next_of p \<noteq> None) pages"
    and "url \<noteq> []"
  shows "(\<not> ok bad \<longrightarrow>
            fst (getWithPagination t url
                  (map (\<lambda>p. Responded (page_response p)) pages @ Responded bad # extra))
              = Some (Inl (CanvasApiError (status bad) (statusText bad))))
       \<and> (ok bad \<and> body bad = Unparseable \<longrightarrow>
            fst (getWithPagination t url
                  (map (\<lambda>p. Responded (page_response p)) pages @ Responded bad # extra))
              = Some (Inl InvalidResponse))"
  using pagination_loop_bad_status [OF assms, of bad t "[]" extra]
    pagination_loop_bad_body [OF assms, of bad t "[]" extra]
  by (simp add: getWithPagination_def)

lemma example_pages_facts:
  "example_pages \<noteq> []"
  "list_all wf_page example_pages"
  "list_all (\<lambda>p. next_of p \<noteq> None) (butlast example_pages)"
  "next_of (last example_pages) = None"
  "concat (map p_items example_pages) = [1, 2, 3]"
  "map (\<lambda>p. the (next_of p)) (butlast example_pages) = [''https://c/api/v1/courses?page=2'']"
  "length example_pages = 2"
  by (simp_all add: example_pages_def wf_page_def wf_segment_def next_of_def is_space_def)

theorem getWithPagination_all_pages_witness:
  "getWithPagination 15000 ''https://c/api/v1/courses?per_page=100''
      (map (\<lambda>p. Responded (page_response p)) example_pages @ [Aborted])
     = (Some (Inr [1, 2, 3]),
        [''https://c/api/v1/courses?per_page=100'', ''https://c/api/v1/courses?page=2''])
   \<and> length (snd (getWithPagination 15000 ''https://c/api/v1/courses?per_page=100''
                    (map (\<lambda>p. Responded (page_response p)) example_pages @ [Aborted]))) = 2"
proof -
  have u: "''https://c/api/v1/courses?per_page=100'' \<noteq> []" by simp
  note t = getWithPagination_all_pages
    [OF example_pages_facts(1) example_pages_facts(2) example_pages_facts(3)
        example_pages_facts(4) u, of 15000 "[Aborted]"]
  show ?thesis
    by (rule t [unfolded example_pages_facts(5) example_pages_facts(6) example_pages_facts(7)])
qed

theorem getWithPagination_aborts_witness:
  "\<not> ok server_error
   \<and> fst (getWithPagination 15000 ''https://c/api/v1/courses?per_page=100''
            (map (\<lambda>p. Responded (page_response p)) (butlast example_pages)
               @ Responded server_error # []))
       = Some (Inl (CanvasApiError 500 ''Internal Server Error''))
   \<and> ok garbled \<and> body garbled = Unparseable
   \<and> fst (getWithPagination 15000 ''https://c/api/v1/courses?per_page=100''
            (map (\<lambda>p. Responded (page_response p)) (butlast example_pages)
               @ Responded garbled # []))
       = Some (Inl InvalidResponse)"
proof -
  have u: "''https://c/api/v1/courses?per_page=100'' \<noteq> []" by simp
  have w: "list_all wf_page (butlast example_pages)"
    by (simp add: example_pages_def wf_page_def wf_segment_def is_space_def)
  have b1: "\<not> ok server_error" by (simp add: ok_def server_error_def)
  have b2: "ok garbled \<and> body garbled = Unparseable" by (simp add: ok_def garbled_def)
  have s: "status server_error = 500" "statusText server_error = ''Internal Server Error''"
    by (simp_all add: server_error_def)
  note t = getWithPagination_aborts [OF w example_pages_facts(3) u]
  have r1: "fst (getWithPagination 15000 ''https://c/api/v1/courses?per_page=100''
            (map (\<lambda>p. Responded (page_response p)) (butlast example_pages)
               @ Responded server_error # []))
       = Some (Inl (CanvasApiError 500 ''Internal Server Error''))"
    using mp [OF conjunct1 [OF t] b1] by (simp only: s)
  have r2: "fst (getWithPagination 15000 ''https://c/api/v1/courses?per_page=100''
            (map (\<lambda>p. Responded (page_response p)) (butlast example_pages)
               @ Responded garbled # []))
       = Some (Inl InvalidResponse)"
    by (rule mp [OF conjunct2 [OF t] b2])
  show ?thesis by (intro conjI b1 r1 conjunct1 [OF b2] conjunct2 [OF b2] r2)
qed

subsection \<open>Status filter\<close>

lemma hasSubmittedAt_iff:
  "(opt_submitted_at (submission a) \<noteq> Null \<and> opt_submitted_at (submission a) \<noteq> Undefined)
     = has_submitted_at a"
  by (cases "submission a"; cases "opt_submitted_at (submission a)")
     (auto simp add: opt_submitted_at_def has_submitted_at_def)

lemma isDueDatePassed_iff:
  "(if truthy_str (due_at a) then date_lt (new_Date parseDate (due_at a)) (Some now) else False)
     = due_passed parseDate now a"
proof (cases "due_at a")
  case (Val d)
  then show ?thesis
    by (cases "parseDate d") (auto simp add: due_passed_def)
qed (simp_all add: due_passed_def)

lemma opt_missing_iff: "(opt_missing (submission a) = Val True) = missing_flag a"
  by (cases "submission a") (auto simp add: opt_missing_def missing_flag_def)

lemma status_keep_missing:
  "status_keep parseDate now ''missing'' a = spec_missing parseDate now a"
  unfolding status_keep_def Let_def hasSubmittedAt_iff isDueDatePassed_iff opt_missing_iff
  by (simp add: spec_missing_def)

lemma status_keep_unsubmitted:
  "status_keep parseDate now ''unsubmitted'' a = spec_unsubmitted a"
  unfolding status_keep_def Let_def hasSubmittedAt_iff isDueDatePassed_iff opt_missing_iff
  by (simp add: spec_unsubmitted_def)

lemma workflow_iff:
  "(opt_workflow_state (submission a) = Val ''submitted''
      \<or> opt_workflow_state (submission a) = Val ''graded'')
   = (case submission a of None \<Rightarrow> False
         | Some s \<Rightarrow> workflow_state s = ''submitted'' \<or> workflow_state s = ''graded'')"
  by (cases "submission a") (simp_all add: opt_workflow_state_def)

lemma status_keep_submitted:
  "status_keep parseDate now ''submitted'' a = spec_submitted a"
  unfolding status_keep_def Let_def hasSubmittedAt_iff isDueDatePassed_iff opt_missing_iff
    workflow_iff
  by (simp add: spec_submitted_def)

lemma listAssignments_filtered:
  "statusFilter \<noteq> ''all'' \<Longrightarrow>
   listAssignments parseDate now1 now includeFuture statusFilter (Inr xs)
     = Inr (map normalize_assignment
             (filter (status_keep parseDate now statusFilter)
               (future_filter parseDate now1 includeFuture xs)))"
  by (simp add: listAssignments_def Let_def)

lemma past_due_no_submission:
  assumes "due_passed parseDate now a" "submission a = None"
  shows "spec_missing parseDate now a" "spec_unsubmitted a" "\<not> spec_submitted a"
  using assms
  by (simp_all add: spec_missing_def spec_unsubmitted_def spec_submitted_def has_submitted_at_def)

text \<open>
  C1. For every fetched list and clock reading, \<open>listAssignments\<close> returns the normalised
  forms of exactly those assignments (of the list left by the unlock-date filter, which is
  the whole list when \<open>includeFuture\<close> is true) that satisfy the rule of the named status
  filter: \<^verbatim>\<open>missing\<close> keeps those whose submission has \<^verbatim>\<open>missing === true\<close> or whose due
  date is strictly before now with no \<^verbatim>\<open>submitted_at\<close>; \<^verbatim>\<open>unsubmitted\<close> keeps those with
  no submission object or no \<^verbatim>\<open>submitted_at\<close>; \<^verbatim>\<open>submitted\<close> keeps those with a
  \<^verbatim>\<open>submitted_at\<close> or a workflow state \<^verbatim>\<open>submitted\<close> or \<^verbatim>\<open>graded\<close>; \<^verbatim>\<open>all\<close> keeps every
  one. An assignment with a past due date and no submission object passes the first two
  rules and fails the third.
\<close>

theorem listAssignments_status_filter:
  "listAssignments parseDate now1 now includeFuture ''missing'' (Inr xs)
     = Inr (map normalize_assignment
             (filter (spec_missing parseDate now) (future_filter parseDate now1 includeFuture xs)))
   \<and> listAssignments parseDate now1 now includeFuture ''unsubmitted'' (Inr xs)
     = Inr (map normalize_assignment
             (filter spec_unsubmitted (future_filter parseDate now1 includeFuture xs)))
   \<and> listAssignments parseDate now1 now includeFuture ''submitted'' (Inr xs)
     = Inr (map normalize_assignment
             (filter spec_submitted (future_filter parseDate now1 includeFuture xs)))
   \<and> listAssignments parseDate now1 now includeFuture ''all'' (Inr xs)
     = Inr (map normalize_assignment (future_filter parseDate now1 includeFuture xs))
   \<and> future_filter parseDate now1 True xs = xs
   \<and> (due_passed parseDate now a \<and> submission a = None
        \<longrightarrow> spec_missing parseDate now a \<and> spec_unsubmitted a \<and> \<not> spec_submitted a)"
proof (intro conjI impI)
  have m: "''missing'' \<noteq> ''all''" and u: "''unsubmitted'' \<noteq> ''all''"
    and s: "''submitted'' \<noteq> ''all''" by simp_all
  have km: "status_keep parseDate now ''missing'' = spec_missing parseDate now"
    by (rule ext) (rule status_keep_missing)
  have ku: "status_keep parseDate now ''unsubmitted'' = spec_unsubmitted"
    by (rule ext) (rule status_keep_unsubmitted)
  have ks: "status_keep parseDate now ''submitted'' = spec_submitted"
    by (rule ext) (rule status_keep_submitted)
  show "listAssignments parseDate now1 now includeFuture ''missing'' (Inr xs)
     = Inr (map normalize_assignment
             (filter (spec_missing parseDate now) (future_filter parseDate now1 includeFuture xs)))"
    by (simp only: listAssignments_filtered [OF m] km)
  show "listAssignments parseDate now1 now includeFuture ''unsubmitted'' (Inr xs)
     = Inr (map normalize_assignment
             (filter spec_unsubmitted (future_filter parseDate now1 includeFuture xs)))"
    by (simp only: listAssignments_filtered [OF u] ku)
  show "listAssignments parseDate now1 now includeFuture ''submitted'' (Inr xs)
     = Inr (map normalize_assignment
             (filter spec_submitted (future_filter parseDate now1 includeFuture xs)))"
    by (simp only: listAssignments_filtered [OF s] ks)
  show "listAssignments parseDate now1 now includeFuture ''all'' (Inr xs)
     = Inr (map normalize_assignment (future_filter parseDate now1 includeFuture xs))"
    by (simp add: listAssignments_def Let_def)
  show "future_filter parseDate now1 True xs = xs"
    by (simp add: future_filter_def)
next
  assume h: "due_passed parseDate now a \<and> submission a = None"
  show "spec_missing parseDate now a"
    by (rule past_due_no_submission(1) [OF conjunct1 [OF h] conjunct2 [OF h]])
  show "spec_unsubmitted a"
    by (rule past_due_no_submission(2) [OF conjunct1 [OF h] conjunct2 [OF h]])
  show "\<not> spec_submitted a"
    by (rule past_due_no_submission(3) [OF conjunct1 [OF h] conjunct2 [OF h]])
qed

theorem listAssignments_status_filter_witness:
  "due_passed example_parseDate 1704153600000 overdue_essay \<and> submission overdue_essay = None
   \<and> listAssignments example_parseDate 0 1704153600000 True ''missing'' (Inr [overdue_essay])
       = Inr [normalize_assignment overdue_essay]
   \<and> listAssignments example_parseDate 0 1704153600000 True ''unsubmitted'' (Inr [overdue_essay])
       = Inr [normalize_assignment overdue_essay]
   \<and> listAssignments example_parseDate 0 1704153600000 True ''submitted'' (Inr [overdue_essay])
       = Inr []"
proof -
  have d: "due_passed example_parseDate 1704153600000 overdue_essay"
    by (simp add: due_passed_def overdue_essay_def example_parseDate_def)
  have n: "submission overdue_essay = None" by (simp add: overdue_essay_def)
  note t = listAssignments_status_filter
    [of example_parseDate 0 1704153600000 True "[overdue_essay]" overdue_essay]
  note ff = conjunct1 [OF conjunct2 [OF conjunct2 [OF conjunct2 [OF conjunct2 [OF t]]]]]
  note k = mp [OF conjunct2 [OF conjunct2 [OF conjunct2 [OF conjunct2 [OF conjunct2 [OF t]]]]]
                conjI [OF d n]]
  have r1: "listAssignments example_parseDate 0 1704153600000 True ''missing'' (Inr [overdue_essay])
       = Inr [normalize_assignment overdue_essay]"
    using conjunct1 [OF t] conjunct1 [OF k] by (simp add: ff)
  have r2: "listAssignments example_parseDate 0 1704153600000 True ''unsubmitted''
              (Inr [overdue_essay]) = Inr [normalize_assignment overdue_essay]"
    using conjunct1 [OF conjunct2 [OF t]] conjunct1 [OF conjunct2 [OF k]] by (simp add: ff)
  have r3: "listAssignments example_parseDate 0 1704153600000 True ''submitted''
              (Inr [overdue_essay]) = Inr []"
    using conjunct1 [OF conjunct2 [OF conjunct2 [OF t]]] conjunct2 [OF conjunct2 [OF k]]
    by (simp add: ff)
  show ?thesis by (intro conjI d n r1 r2 r3)
qed

subsection \<open>Course grades\<close>

lemma getCourseGrades_not_Inl: "getCourseGrades t toNumber parseDate courseId outcome \<noteq> Inl e"
  by (simp add: getCourseGrades_def split: sum.splits)

lemma getCourseGrades_fetch_failed:
  "getCourseGrades t toNumber parseDate courseId Aborted = Inr (hidden (Number_of toNumber courseId))"
  "getCourseGrades t toNumber parseDate courseId (Failed d) = Inr (hidden (Number_of toNumber courseId))"
  by (simp_all add: getCourseGrades_def getCourseGrades_try_def fetchWithTimeout_def)

lemma getCourseGrades_bad_response:
  assumes "\<not> ok res \<or> body res = Unparseable \<or> body res = JsonOther"
  shows "getCourseGrades t toNumber parseDate courseId (Responded res)
           = Inr (hidden (Number_of toNumber courseId))"
  using assms
  by (auto simp add: getCourseGrades_def getCourseGrades_try_def fetchWithTimeout_def)

text \<open>
  C3. \<open>getCourseGrades\<close> never ends with an error: whatever the argument and however the
  request ends, its result is a summary. When the request times out, fails otherwise,
  is answered with a status that is not 2xx, or is answered with a body that does
  not parse (or is not an array), the summary is \<^verbatim>\<open>{course_id, available: false, reason:
  'hidden_or_unavailable'}\<close>.
\<close>

theorem getCourseGrades_never_throws:
  "(\<forall>e. getCourseGrades t toNumber parseDate courseId outcome \<noteq> Inl e)
   \<and> getCourseGrades t toNumber parseDate courseId Aborted
       = Inr (Unavailable (Number_of toNumber courseId) ''hidden_or_unavailable'' None)
   \<and> getCourseGrades t toNumber parseDate courseId (Failed d)
       = Inr (Unavailable (Number_of toNumber courseId) ''hidden_or_unavailable'' None)
   \<and> (\<not> ok res \<or> body res = Unparseable \<or> body res = JsonOther
        \<longrightarrow> getCourseGrades t toNumber parseDate courseId (Responded res)
            = Inr (Unavailable (Number_of toNumber courseId) ''hidden_or_unavailable'' None))"
proof (intro conjI allI impI)
  fix e show "getCourseGrades t toNumber parseDate courseId outcome \<noteq> Inl e"
    by (rule getCourseGrades_not_Inl)
next
  show "getCourseGrades t toNumber parseDate courseId Aborted
       = Inr (Unavailable (Number_of toNumber courseId) ''hidden_or_unavailable'' None)"
    by (rule getCourseGrades_fetch_failed(1) [unfolded hidden_def])
next
  show "getCourseGrades t toNumber parseDate courseId (Failed d)
       = Inr (Unavailable (Number_of toNumber courseId) ''hidden_or_unavailable'' None)"
    by (rule getCourseGrades_fetch_failed(2) [unfolded hidden_def])
next
  assume h: "\<not> ok res \<or> body res = Unparseable \<or> body res = JsonOther"
  show "getCourseGrades t toNumber parseDate courseId (Responded res)
            = Inr (Unavailable (Number_of toNumber courseId) ''hidden_or_unavailable'' None)"
    by (rule getCourseGrades_bad_response [OF h, unfolded hidden_def])
qed

theorem getCourseGrades_never_throws_witness:
  "\<not> ok (enrollments_response [] \<lparr>status := 404, statusText := ''Not Found''\<rparr>)
   \<and> getCourseGrades 15000 (\<lambda>s. NaN) (\<lambda>s. None) (CourseNum 42)
        (Responded (enrollments_response [] \<lparr>status := 404, statusText := ''Not Found''\<rparr>))
       = Inr (Unavailable (Num 42) ''hidden_or_unavailable'' None)
   \<and> getCourseGrades 15000 (\<lambda>s. NaN) (\<lambda>s. None) (CourseNum 42) Aborted
       = Inr (Unavailable (Num 42) ''hidden_or_unavailable'' None)"
proof -
  have b: "\<not> ok (enrollments_response [] \<lparr>status := 404, statusText := ''Not Found''\<rparr>)"
    by (simp add: ok_def enrollments_response_def)
  note t = getCourseGrades_never_throws
    [of 15000 "\<lambda>s. NaN" "\<lambda>s. None" "CourseNum 42" Aborted _
        "enrollments_response [] \<lparr>status := 404, statusText := ''Not Found''\<rparr>"]
  have n: "Number_of (\<lambda>s. NaN) (CourseNum 42) = Num 42" by simp
  note r1 = mp [OF conjunct2 [OF conjunct2 [OF conjunct2 [OF t]]] disjI1 [OF b], unfolded n]
  note r2 = conjunct1 [OF conjunct2 [OF t], unfolded n]
  show ?thesis by (intro conjI b r1 r2)
qed

lemma js_sort_single: "js_sort cmp [x] = [x]"
  by (simp add: js_sort_def)

lemma grade_result_all_null:
  assumes "grades e = None \<or> grades e = Some \<lparr> current_score = Null, current_grade = Null,
                                                final_score = Null, final_grade = Null \<rparr>"
    and "computed_current_score e = Null" "computed_current_grade e = Null"
  shows "grade_result cid e = Unavailable cid ''no_grades_yet'' (Some (meta_of e))"
  using assms by (auto simp add: grade_result_def hasGradeData_def)

lemma grade_result_zero_score:
  assumes "computed_current_score e = Val 0"
  shows "\<exists>cs cg fs fg. grade_result cid e = Available cid cs cg fs fg (meta_of e)"
  using assms by (simp add: grade_result_def hasGradeData_def)

lemma hasGradeData_ungraded_enrollment: "hasGradeData ungraded_enrollment"
  by (simp add: hasGradeData_def ungraded_enrollment_def)

text \<open>
  C2 (the code at the failing input). The only enrollment of course 42 has a
  \<^verbatim>\<open>grades\<close> object of four nulls and no \<^verbatim>\<open>computed_*\<close> property: none of the six
  fields carries a value. \<open>hasGradeData\<close> compares each with \<^verbatim>\<open>null\<close> only, an absent
  property is \<^verbatim>\<open>undefined\<close>, and \<^verbatim>\<open>undefined !== null\<close> holds; so the enrollment counts as
  having grade data and the result is \<open>Available\<close> with every score and grade null, not
  \<^verbatim>\<open>no_grades_yet\<close>.
\<close>

theorem getCourseGrades_absent_fields_available:
  "getCourseGrades t toNumber parseDate (CourseNum 42)
        (Responded (enrollments_response [ungraded_enrollment]))
       = Inr (Available (Num 42) None None None None
               \<lparr> m_enrollment_state = ''active'', m_term_id = None,
                 m_course_start_at = None, m_course_end_at = None \<rparr>)"
proof -
  note h = hasGradeData_ungraded_enrollment
  have f: "e_course_id ungraded_enrollment = 42"
    by (simp add: ungraded_enrollment_def)
  have a: "enrollment_state ungraded_enrollment = ''active''"
    by (simp add: ungraded_enrollment_def)
  have b: "best_enrollment parseDate [ungraded_enrollment] = Some ungraded_enrollment"
    by (simp add: best_enrollment_def a js_sort_single)
  have g: "grade_result (Num 42) ungraded_enrollment
      = Available (Num 42) None None None None
               \<lparr> m_enrollment_state = ''active'', m_term_id = None,
                 m_course_start_at = None, m_course_end_at = None \<rparr>"
    by (simp add: grade_result_def h)
       (simp add: ungraded_enrollment_def coalesce_def opt_grade_def meta_of_def opt_start_at_def
          opt_end_at_def)
  have "getCourseGrades t toNumber parseDate (CourseNum 42)
        (Responded (enrollments_response [ungraded_enrollment]))
       = Inr (grade_result (Num 42) ungraded_enrollment)"
    by (simp add: getCourseGrades_def getCourseGrades_try_def fetchWithTimeout_def
          enrollments_response_def ok_def f b)
  with g show ?thesis by simp
qed

lemma enrollment_cmp_same_course:
  "\<not> sorts_after (enrollment_cmp parseDate (section_enrollment i x) (section_enrollment j y))"
  by (cases "parseDate ''2025-06-30T00:00:00Z''")
     (simp_all add: enrollment_cmp_def section_enrollment_def opt_end_at_def)

text \<open>
  C4 (the code at the failing input). Course 42 answers with two active enrollments of the
  same course, ids 101 and 202 in that order, each carrying the course's end date. The
  comparator returns the difference of the two end dates, which is 0, and never reaches
  the comparison of ids; the stable sort leaves the order as it came and the enrollment
  with the lower id, 101, is selected: the summary shows its score, 50.
\<close>

theorem best_enrollment_equal_end_dates:
  "best_enrollment parseDate [section_enrollment 101 50, section_enrollment 202 90]
     = Some (section_enrollment 101 50)
   \<and> getCourseGrades t toNumber parseDate (CourseNum 42)
        (Responded (enrollments_response [section_enrollment 101 50, section_enrollment 202 90]))
       = Inr (Available (Num 42) (Some 50) None None None
               \<lparr> m_enrollment_state = ''active'', m_term_id = None,
                 m_course_start_at = None,
                 m_course_end_at = Some ''2025-06-30T00:00:00Z'' \<rparr>)"
proof -
  have a: "\<And>i x. enrollment_state (section_enrollment i x) = ''active''"
    by (simp add: section_enrollment_def)
  have s: "js_sort (enrollment_cmp parseDate) [section_enrollment 101 50, section_enrollment 202 90]
           = [section_enrollment 101 50, section_enrollment 202 90]"
    by (simp add: js_sort_def enrollment_cmp_same_course)
  have b: "best_enrollment parseDate [section_enrollment 101 50, section_enrollment 202 90]
     = Some (section_enrollment 101 50)"
    by (simp add: best_enrollment_def a s)
  have f: "\<And>i x. e_course_id (section_enrollment i x) = 42"
    by (simp add: section_enrollment_def)
  have g: "grade_result (Num 42) (section_enrollment 101 50)
      = Available (Num 42) (Some 50) None None None
               \<lparr> m_enrollment_state = ''active'', m_term_id = None,
                 m_course_start_at = None,
                 m_course_end_at = Some ''2025-06-30T00:00:00Z'' \<rparr>"
    by (simp add: grade_result_def hasGradeData_def section_enrollment_def coalesce_def
          opt_grade_def meta_of_def opt_start_at_def opt_end_at_def)
  have "getCourseGrades t toNumber parseDate (CourseNum 42)
        (Responded (enrollments_response [section_enrollment 101 50, section_enrollment 202 90]))
       = Inr (grade_result (Num 42) (section_enrollment 101 50))"
    by (simp add: getCourseGrades_def getCourseGrades_try_def fetchWithTimeout_def
          enrollments_response_def ok_def f b)
  with b g show ?thesis by simp
qed

lemma best_enrollment_prefers_active:
  assumes "enrollment_state a = ''active''" "enrollment_state b \<noteq> ''active''"
  shows "best_enrollment parseDate [a, b] = Some a" "best_enrollment parseDate [b, a] = Some a"
  using assms by (simp_all add: best_enrollment_def js_sort_single)

lemma best_enrollment_no_end_dates:
  assumes "enrollment_state a = ''active''" "enrollment_state b = ''active''"
    and "course a = None" "course b = None" "e_id a < e_id b"
  shows "best_enrollment parseDate [a, b] = Some b" "best_enrollment parseDate [b, a] = Some b"
  using assms
  by (simp_all add: best_enrollment_def js_sort_def enrollment_cmp_def opt_end_at_def)

subsection \<open>Upcoming assignments\<close>


















end
